theory Spec2Isabelle
  imports Complex_Main
begin

section \<open>JavaScript numbers\<close>

text \<open>
  Every value of \<^verbatim>\<open>ammonia_engine.js\<close> is a JavaScript Number, a binary64 float. The
  model keeps what the engine's control flow and its special cases depend on: NaN, the
  two infinities, division by zero, and overflow of a finite result to an infinity. A
  finite value is a real and a finite result is kept exactly: rounding to 53 bits,
  underflow and the sign of zero are left out (the only zero divisors of the engine,
  \<^verbatim>\<open>steps - 1\<close> and \<^verbatim>\<open>temp_c + 273.15\<close>, are positive zeros).
  A result overflows when its magnitude reaches \<open>2^1024 - 2^970\<close>, the least real that
  round-to-nearest sends to an infinity.

  Rounding to nearest is monotone but merges nearby results and moves a computed sum off
  the exact one. The statements on monotonicity therefore use the non-strict order, and the
  statements on the samples of the grid name the engine's own operations.
\<close>

datatype jsnum = NaN | PInf | NInf | Fin real

definition dbl_limit :: real where
  "dbl_limit = 2 ^ 1024 - 2 ^ 970"

definition ovf :: "real \<Rightarrow> jsnum" where
  "ovf x = (if dbl_limit \<le> x then PInf else if x \<le> - dbl_limit then NInf else Fin x)"

fun js_neg :: "jsnum \<Rightarrow> jsnum" where
  "js_neg NaN = NaN"
| "js_neg PInf = NInf"
| "js_neg NInf = PInf"
| "js_neg (Fin a) = Fin (- a)"

fun js_add :: "jsnum \<Rightarrow> jsnum \<Rightarrow> jsnum" where
  "js_add NaN y = NaN"
| "js_add x NaN = NaN"
| "js_add PInf NInf = NaN"
| "js_add NInf PInf = NaN"
| "js_add PInf y = PInf"
| "js_add NInf y = NInf"
| "js_add (Fin a) PInf = PInf"
| "js_add (Fin a) NInf = NInf"
| "js_add (Fin a) (Fin b) = ovf (a + b)"

definition js_sub :: "jsnum \<Rightarrow> jsnum \<Rightarrow> jsnum" where
  "js_sub x y = js_add x (js_neg y)"

fun js_mul :: "jsnum \<Rightarrow> jsnum \<Rightarrow> jsnum" where
  "js_mul NaN y = NaN"
| "js_mul x NaN = NaN"
| "js_mul PInf PInf = PInf"
| "js_mul PInf NInf = NInf"
| "js_mul NInf PInf = NInf"
| "js_mul NInf NInf = PInf"
| "js_mul PInf (Fin b) = (if b = 0 then NaN else if 0 < b then PInf else NInf)"
| "js_mul NInf (Fin b) = (if b = 0 then NaN else if 0 < b then NInf else PInf)"
| "js_mul (Fin a) PInf = (if a = 0 then NaN else if 0 < a then PInf else NInf)"
| "js_mul (Fin a) NInf = (if a = 0 then NaN else if 0 < a then NInf else PInf)"
| "js_mul (Fin a) (Fin b) = ovf (a * b)"

fun js_div :: "jsnum \<Rightarrow> jsnum \<Rightarrow> jsnum" where
  "js_div NaN y = NaN"
| "js_div x NaN = NaN"
| "js_div PInf PInf = NaN"
| "js_div PInf NInf = NaN"
| "js_div NInf PInf = NaN"
| "js_div NInf NInf = NaN"
| "js_div PInf (Fin b) = (if 0 \<le> b then PInf else NInf)"
| "js_div NInf (Fin b) = (if 0 \<le> b then NInf else PInf)"
| "js_div (Fin a) PInf = Fin 0"
| "js_div (Fin a) NInf = Fin 0"
| "js_div (Fin a) (Fin b) =
     (if b = 0 then (if a = 0 then NaN else if 0 < a then PInf else NInf)
      else ovf (a / b))"

text \<open>The comparisons \<^verbatim>\<open><\<close> and \<^verbatim>\<open><=\<close>: false as soon as one side is NaN.\<close>

fun js_lt :: "jsnum \<Rightarrow> jsnum \<Rightarrow> bool" where
  "js_lt NaN y = False"
| "js_lt x NaN = False"
| "js_lt x NInf = False"
| "js_lt PInf y = False"
| "js_lt NInf y = True"
| "js_lt (Fin a) PInf = True"
| "js_lt (Fin a) (Fin b) = (a < b)"

fun js_le :: "jsnum \<Rightarrow> jsnum \<Rightarrow> bool" where
  "js_le NaN y = False"
| "js_le x NaN = False"
| "js_le NInf y = True"
| "js_le x PInf = True"
| "js_le PInf y = False"
| "js_le (Fin a) NInf = False"
| "js_le (Fin a) (Fin b) = (a \<le> b)"

text \<open>\<^verbatim>\<open>Math.max\<close> and \<^verbatim>\<open>Math.min\<close> return NaN when an argument is NaN.\<close>

fun Math_max :: "jsnum \<Rightarrow> jsnum \<Rightarrow> jsnum" where
  "Math_max NaN y = NaN"
| "Math_max x NaN = NaN"
| "Math_max x y = (if js_lt x y then y else x)"

fun Math_min :: "jsnum \<Rightarrow> jsnum \<Rightarrow> jsnum" where
  "Math_min NaN y = NaN"
| "Math_min x NaN = NaN"
| "Math_min x y = (if js_lt y x then y else x)"

fun Math_tanh :: "jsnum \<Rightarrow> jsnum" where
  "Math_tanh NaN = NaN"
| "Math_tanh PInf = Fin 1"
| "Math_tanh NInf = Fin (- 1)"
| "Math_tanh (Fin a) = Fin (tanh a)"

fun Math_expm1 :: "jsnum \<Rightarrow> jsnum" where
  "Math_expm1 NaN = NaN"
| "Math_expm1 PInf = PInf"
| "Math_expm1 NInf = Fin (- 1)"
| "Math_expm1 (Fin a) = ovf (exp a - 1)"

text \<open>\<^verbatim>\<open>Math.pow(10, x)\<close>, the only use of \<^verbatim>\<open>Math.pow\<close> in the engine.\<close>

fun Math_pow10 :: "jsnum \<Rightarrow> jsnum" where
  "Math_pow10 NaN = NaN"
| "Math_pow10 PInf = PInf"
| "Math_pow10 NInf = Fin 0"
| "Math_pow10 (Fin a) = ovf (10 powr a)"

text \<open>
  Reading an array element: an index past the end reads \<^verbatim>\<open>undefined\<close>, which every
  arithmetic operator of the engine turns into NaN.
\<close>

definition js_index :: "jsnum list \<Rightarrow> nat \<Rightarrow> jsnum" where
  "js_index xs i = (if i < length xs then xs ! i else NaN)"


section \<open>The engine\<close>

text \<open>
  The functions of \<^verbatim>\<open>ammonia_engine.js\<close> in the order of the file. \<^verbatim>\<open>makeTree\<close> and
  \<^verbatim>\<open>predictTree\<close> are never called and are left out.
\<close>

subsection \<open>Standard scaler\<close>

definition SCALER_MEANS :: "jsnum list" where
  "SCALER_MEANS = [Fin 26.5, Fin 1180.0, Fin 7.2, Fin 191.28, Fin 8496.0]"

definition SCALER_STDS :: "jsnum list" where
  "SCALER_STDS = [Fin 3.8, Fin 350.0, Fin 0.45, Fin 30.5, Fin 2800.0]"

definition standardScale :: "jsnum list \<Rightarrow> jsnum list" where
  "standardScale features =
     map (\<lambda>(v, i). js_div (js_sub v (js_index SCALER_MEANS i)) (js_index SCALER_STDS i))
       (zip features [0 ..< length features])"

subsection \<open>Regression surrogate\<close>

record weights =
  w_Temp :: jsnum
  w_EC :: jsnum
  w_pH :: jsnum
  w_pH_Temp :: jsnum
  w_EC_pH :: jsnum

record model =
  intercept :: jsnum
  weights :: weights
  saturation :: jsnum

definition MODEL :: model where
  "MODEL = \<lparr> intercept = Fin (- 0.12),
             weights = \<lparr> w_Temp = Fin 0.08, w_EC = Fin 0.22, w_pH = Fin (- 0.05),
                         w_pH_Temp = Fin 0.12, w_EC_pH = Fin 0.11 \<rparr>,
             saturation = Fin 2.8 \<rparr>"

definition forestPredict :: "jsnum list \<Rightarrow> jsnum" where
  "forestPredict scaledFeatures =
    (let Temp_s = js_index scaledFeatures 0;
         EC_s = js_index scaledFeatures 1;
         pH_s = js_index scaledFeatures 2;
         pH_Temp_s = js_index scaledFeatures 3;
         EC_pH_s = js_index scaledFeatures 4;
         pred = js_add (js_add (js_add (js_add (js_add (intercept MODEL)
                  (js_mul (w_Temp (weights MODEL)) Temp_s))
                  (js_mul (w_EC (weights MODEL)) EC_s))
                  (js_mul (w_pH (weights MODEL)) pH_s))
                  (js_mul (w_pH_Temp (weights MODEL)) pH_Temp_s))
                  (js_mul (w_EC_pH (weights MODEL)) EC_pH_s);
         pred = js_add pred (js_mul (js_mul (Fin 0.04) Temp_s) EC_s);
         pred = js_add pred (js_mul (js_mul (Fin 0.03) EC_s) pH_s);
         pred = js_add pred (js_mul (js_mul (Fin 0.02) Temp_s) pH_Temp_s);
         pred = js_mul (saturation MODEL) (Math_tanh (js_div pred (saturation MODEL)));
         pred = Math_max (Fin (- 0.05)) (Math_min pred (Fin 3.2))
     in pred)"

subsection \<open>Emerson equilibrium\<close>

definition emersonPhysics :: "jsnum \<Rightarrow> jsnum \<Rightarrow> jsnum \<Rightarrow> jsnum" where
  "emersonPhysics tan_mg_L temp_c pH =
    (let temp_k = js_add temp_c (Fin 273.15);
         pKa = js_add (Fin 0.09018) (js_div (Fin 2729.92) temp_k);
         nh3_fraction = js_div (Fin 1.0) (js_add (Fin 1.0) (Math_pow10 (js_sub pKa pH)))
     in js_mul tan_mg_L nh3_fraction)"

text \<open>
  The value of the local \<^verbatim>\<open>nh3_fraction\<close> of \<^verbatim>\<open>emersonPhysics\<close> (lines 131 to 133), so
  that statements can name the fraction the function computes.
\<close>

definition nh3_fraction :: "jsnum \<Rightarrow> jsnum \<Rightarrow> jsnum" where
  "nh3_fraction temp_c pH =
    (let temp_k = js_add temp_c (Fin 273.15);
         pKa = js_add (Fin 0.09018) (js_div (Fin 2729.92) temp_k)
     in js_div (Fin 1.0) (js_add (Fin 1.0) (Math_pow10 (js_sub pKa pH))))"

subsection \<open>Risk classifier\<close>

datatype risk_tier = SAFE | WARNING | CRITICAL

definition classifyRisk :: "jsnum \<Rightarrow> risk_tier" where
  "classifyRisk toxicNH3 =
    (if js_lt toxicNH3 (Fin 0.05) then SAFE
     else if js_lt toxicNH3 (Fin 0.34) then WARNING
     else CRITICAL)"

subsection \<open>Pipeline\<close>

record prediction =
  TAN :: jsnum
  toxicNH3 :: jsnum
  risk :: risk_tier

definition predictAmmoniaRisk :: "jsnum \<Rightarrow> jsnum \<Rightarrow> jsnum \<Rightarrow> prediction" where
  "predictAmmoniaRisk temp_c pH ec =
    (let pH_Temp = js_mul pH temp_c;
         EC_pH = js_mul ec pH;
         raw = [temp_c, ec, pH, pH_Temp, EC_pH];
         scaled = standardScale raw;
         pred_log = forestPredict scaled;
         pred_TAN = Math_expm1 pred_log;
         toxic_NH3 = emersonPhysics pred_TAN temp_c pH;
         risk = classifyRisk toxic_NH3
     in \<lparr> TAN = Math_max (Fin 0) pred_TAN,
          toxicNH3 = Math_max (Fin 0) toxic_NH3,
          risk = risk \<rparr>)"


subsection \<open>Heatmap grid\<close>

text \<open>
  A cell is the object \<^verbatim>\<open>{ temp: t, pH: p, ...r }\<close>. The loop counters \<^verbatim>\<open>i\<close>, \<^verbatim>\<open>j\<close> and
  \<^verbatim>\<open>steps\<close> are integers (exact in a Number below \<open>2^53\<close>), so they are naturals here
  and enter the arithmetic as \<open>Fin (real i)\<close>. The two \<^verbatim>\<open>for\<close> loops are the recursive
  functions \<open>heatmap_inner\<close> and \<open>heatmap_outer\<close>, which carry the counter and the array
  built so far. The default \<^verbatim>\<open>steps = 8\<close> is the caller's to pass.
\<close>

record cell = prediction +
  temp :: jsnum
  pH :: jsnum

function heatmap_inner ::
  "jsnum list \<Rightarrow> jsnum list \<Rightarrow> jsnum \<Rightarrow> nat \<Rightarrow> jsnum \<Rightarrow> jsnum \<Rightarrow> nat \<Rightarrow> nat \<Rightarrow> cell list
    \<Rightarrow> cell list" where
  "heatmap_inner tempRange phRange ec steps tStep pStep i j row =
    (if j < steps then
       (let t = js_add (js_index tempRange 0) (js_mul (Fin (real i)) tStep);
            p = js_add (js_index phRange 0) (js_mul (Fin (real j)) pStep);
            r = predictAmmoniaRisk t p ec
        in heatmap_inner tempRange phRange ec steps tStep pStep i (Suc j)
             (row @ [\<lparr> TAN = TAN r, toxicNH3 = toxicNH3 r, risk = risk r,
                        temp = t, pH = p \<rparr>]))
     else row)"
  by pat_completeness auto
termination
  by (relation "measure (\<lambda>(tempRange, phRange, ec, steps, tStep, pStep, i, j, row). steps - j)")
    auto

function heatmap_outer ::
  "jsnum list \<Rightarrow> jsnum list \<Rightarrow> jsnum \<Rightarrow> nat \<Rightarrow> jsnum \<Rightarrow> jsnum \<Rightarrow> nat \<Rightarrow> cell list list
    \<Rightarrow> cell list list" where
  "heatmap_outer tempRange phRange ec steps tStep pStep i data =
    (if i < steps then
       heatmap_outer tempRange phRange ec steps tStep pStep (Suc i)
         (data @ [heatmap_inner tempRange phRange ec steps tStep pStep i 0 []])
     else data)"
  by pat_completeness auto
termination
  by (relation "measure (\<lambda>(tempRange, phRange, ec, steps, tStep, pStep, i, data). steps - i)")
    auto

definition generateHeatmapData ::
  "jsnum list \<Rightarrow> jsnum list \<Rightarrow> jsnum \<Rightarrow> nat \<Rightarrow> cell list list" where
  "generateHeatmapData tempRange phRange ec steps =
    (let tStep = js_div (js_sub (js_index tempRange 1) (js_index tempRange 0))
                   (js_sub (Fin (real steps)) (Fin 1));
         pStep = js_div (js_sub (js_index phRange 1) (js_index phRange 0))
                   (js_sub (Fin (real steps)) (Fin 1))
     in heatmap_outer tempRange phRange ec steps tStep pStep 0 [])"


text \<open>The body of the inner loop: the cell pushed at row \<open>i\<close>, column \<open>j\<close>.\<close>

definition heatmap_cell ::
  "jsnum list \<Rightarrow> jsnum list \<Rightarrow> jsnum \<Rightarrow> jsnum \<Rightarrow> jsnum \<Rightarrow> nat \<Rightarrow> nat \<Rightarrow> cell" where
  "heatmap_cell tempRange phRange ec tStep pStep i j =
    (let t = js_add (js_index tempRange 0) (js_mul (Fin (real i)) tStep);
         p = js_add (js_index phRange 0) (js_mul (Fin (real j)) pStep);
         r = predictAmmoniaRisk t p ec
     in \<lparr> TAN = TAN r, toxicNH3 = toxicNH3 r, risk = risk r, temp = t, pH = p \<rparr>)"


text \<open>
  The sample \<^verbatim>\<open>range[0] + i * step\<close> with \<^verbatim>\<open>step = (range[1] - range[0]) / (steps - 1)\<close>
  (lines 182, 183, 187 and 188), in the engine's arithmetic.
\<close>

definition heatmap_sample :: "jsnum \<Rightarrow> jsnum \<Rightarrow> nat \<Rightarrow> nat \<Rightarrow> jsnum" where
  "heatmap_sample lo hi steps i =
     js_add lo (js_mul (Fin (real i)) (js_div (js_sub hi lo) (js_sub (Fin (real steps)) (Fin 1))))"


section \<open>The surrogate as the specification words it\<close>

text \<open>
  Section 4.3 of the specification: the intercept plus the sum of the positional weights
  times the scaled features (temperature, conductivity, pH, pH x temperature,
  conductivity x pH), plus three cross terms, then saturation at the saturation bound,
  then a hard clamp. These definitions follow that wording; the theorem for C1 compares
  them with \<open>forestPredict\<close>.
\<close>

definition positional_weights :: "jsnum list" where
  "positional_weights =
     [w_Temp (weights MODEL), w_EC (weights MODEL), w_pH (weights MODEL),
      w_pH_Temp (weights MODEL), w_EC_pH (weights MODEL)]"

definition linear_combination :: "jsnum list \<Rightarrow> jsnum" where
  "linear_combination xs =
     foldl (\<lambda>acc (w, x). js_add acc (js_mul w x)) (intercept MODEL) (zip positional_weights xs)"

definition saturate :: "jsnum \<Rightarrow> jsnum \<Rightarrow> jsnum" where
  "saturate bound v = js_mul bound (Math_tanh (js_div v bound))"

definition clamp :: "jsnum \<Rightarrow> jsnum \<Rightarrow> jsnum \<Rightarrow> jsnum" where
  "clamp lo hi v = (if js_lt v lo then lo else if js_lt hi v then hi else v)"

definition surrogate_spec :: "jsnum \<Rightarrow> jsnum \<Rightarrow> jsnum \<Rightarrow> jsnum \<Rightarrow> jsnum \<Rightarrow> jsnum" where
  "surrogate_spec Temp_s EC_s pH_s pH_Temp_s EC_pH_s =
     clamp (Fin (- 0.05)) (Fin 3.2)
       (saturate (Fin 2.8)
         (js_add (js_add (js_add
            (linear_combination [Temp_s, EC_s, pH_s, pH_Temp_s, EC_pH_s])
            (js_mul (js_mul (Fin 0.04) Temp_s) EC_s))
            (js_mul (js_mul (Fin 0.03) EC_s) pH_s))
            (js_mul (js_mul (Fin 0.02) Temp_s) pH_Temp_s)))"


section \<open>Auxiliary notions for the statements\<close>

text \<open>A finite number of magnitude at most \<open>B\<close>.\<close>

definition bounded_by :: "real \<Rightarrow> jsnum \<Rightarrow> bool" where
  "bounded_by B x = (case x of Fin r \<Rightarrow> \<bar>r\<bar> \<le> B | _ \<Rightarrow> False)"

text \<open>The value of \<^verbatim>\<open>pred\<close> in \<^verbatim>\<open>forestPredict\<close> before the saturation (lines 102 to 115).\<close>

definition forest_sum :: "jsnum list \<Rightarrow> jsnum" where
  "forest_sum scaledFeatures =
    (let Temp_s = js_index scaledFeatures 0;
         EC_s = js_index scaledFeatures 1;
         pH_s = js_index scaledFeatures 2;
         pH_Temp_s = js_index scaledFeatures 3;
         EC_pH_s = js_index scaledFeatures 4;
         pred = js_add (js_add (js_add (js_add (js_add (intercept MODEL)
                  (js_mul (w_Temp (weights MODEL)) Temp_s))
                  (js_mul (w_EC (weights MODEL)) EC_s))
                  (js_mul (w_pH (weights MODEL)) pH_s))
                  (js_mul (w_pH_Temp (weights MODEL)) pH_Temp_s))
                  (js_mul (w_EC_pH (weights MODEL)) EC_pH_s);
         pred = js_add pred (js_mul (js_mul (Fin 0.04) Temp_s) EC_s);
         pred = js_add pred (js_mul (js_mul (Fin 0.03) EC_s) pH_s);
         pred = js_add pred (js_mul (js_mul (Fin 0.02) Temp_s) pH_Temp_s)
     in pred)"


text \<open>
  The Emerson relation of section 4.5 of the specification, over the reals: the
  dissociation exponent and the unionized fraction.
\<close>

definition pKa_real :: "real \<Rightarrow> real" where
  "pKa_real temp_c = 0.09018 + 2729.92 / (temp_c + 273.15)"

definition fraction_real :: "real \<Rightarrow> real \<Rightarrow> real" where
  "fraction_real temp_c ph = 1 / (1 + 10 powr (pKa_real temp_c - ph))"


section \<open>NaN is absorbing\<close>

lemma js_add_NaN_right [simp]: "js_add x NaN = NaN"
  by (cases x) simp_all

lemma js_mul_NaN_right [simp]: "js_mul x NaN = NaN"
  by (cases x) simp_all

lemma js_div_NaN_right [simp]: "js_div x NaN = NaN"
  by (cases x) simp_all

lemma js_sub_NaN_left [simp]: "js_sub NaN y = NaN"
  by (simp add: js_sub_def)

lemma js_sub_NaN_right [simp]: "js_sub x NaN = NaN"
  by (simp add: js_sub_def)

lemma Math_max_NaN_right [simp]: "Math_max x NaN = NaN"
  by (cases x) simp_all

lemma Math_min_NaN_right [simp]: "Math_min x NaN = NaN"
  by (cases x) simp_all

lemma standardScale_5:
  "standardScale [a, b, c, d, e] =
    [js_div (js_sub a (Fin 26.5)) (Fin 3.8),
     js_div (js_sub b (Fin 1180.0)) (Fin 350.0),
     js_div (js_sub c (Fin 7.2)) (Fin 0.45),
     js_div (js_sub d (Fin 191.28)) (Fin 30.5),
     js_div (js_sub e (Fin 8496.0)) (Fin 2800.0)]"
  by (simp add: standardScale_def js_index_def SCALER_MEANS_def SCALER_STDS_def upt_rec)

lemma forestPredict_NaN:
  "a = NaN \<or> b = NaN \<or> c = NaN \<or> d = NaN \<or> e = NaN \<Longrightarrow>
   forestPredict [a, b, c, d, e] = NaN"
  by (auto simp add: forestPredict_def Let_def js_index_def MODEL_def)

lemma emersonPhysics_NaN [simp]: "emersonPhysics NaN t p = NaN"
  by (simp add: emersonPhysics_def Let_def)


section \<open>Risk classifier: tiers\<close>

lemma js_le_not_lt: "js_le (Fin c) x \<Longrightarrow> \<not> js_lt x (Fin c)"
  by (cases x) auto

lemma js_lt_trans_Fin: "js_lt x (Fin c) \<Longrightarrow> c \<le> d \<Longrightarrow> js_lt x (Fin d)"
  by (cases x) auto

text \<open>
  C2. The classifier is total with half-open tiers: below 0.05 is SAFE, from 0.05
  (inclusive) to 0.34 (exclusive) is WARNING, from 0.34 (inclusive) on is CRITICAL; so
  exactly 0.05 is WARNING and exactly 0.34 is CRITICAL.
\<close>

theorem classifyRisk_tiers:
  "(js_lt x (Fin 0.05) \<longrightarrow> classifyRisk x = SAFE)
   \<and> (js_le (Fin 0.05) x \<and> js_lt x (Fin 0.34) \<longrightarrow> classifyRisk x = WARNING)
   \<and> (js_le (Fin 0.34) x \<longrightarrow> classifyRisk x = CRITICAL)
   \<and> classifyRisk (Fin 0.05) = WARNING
   \<and> classifyRisk (Fin 0.34) = CRITICAL"
proof -
  have safe: "js_lt x (Fin 0.05) \<longrightarrow> classifyRisk x = SAFE"
    by (simp add: classifyRisk_def)
  have warn: "js_le (Fin 0.05) x \<and> js_lt x (Fin 0.34) \<longrightarrow> classifyRisk x = WARNING"
    using js_le_not_lt [of "0.05" x] by (auto simp add: classifyRisk_def)
  have crit: "js_le (Fin 0.34) x \<longrightarrow> classifyRisk x = CRITICAL"
  proof
    assume h: "js_le (Fin 0.34) x"
    then have a: "\<not> js_lt x (Fin 0.34)" by (rule js_le_not_lt)
    have "\<not> js_lt x (Fin 0.05)"
    proof
      assume "js_lt x (Fin 0.05)"
      then have "js_lt x (Fin 0.34)" by (rule js_lt_trans_Fin) simp
      with a show False by simp
    qed
    with a show "classifyRisk x = CRITICAL" by (simp add: classifyRisk_def)
  qed
  have b1: "classifyRisk (Fin 0.05) = WARNING" by (simp add: classifyRisk_def)
  have b2: "classifyRisk (Fin 0.34) = CRITICAL" by (simp add: classifyRisk_def)
  from safe warn crit b1 b2 show ?thesis by blast
qed

theorem classifyRisk_tiers_witness:
  "classifyRisk (Fin 0.049) = SAFE \<and> classifyRisk (Fin 0.2) = WARNING
   \<and> classifyRisk (Fin 1) = CRITICAL \<and> classifyRisk PInf = CRITICAL
   \<and> classifyRisk NInf = SAFE"
  using classifyRisk_tiers [of "Fin 0.049"] classifyRisk_tiers [of "Fin 0.2"]
    classifyRisk_tiers [of "Fin 1"] classifyRisk_tiers [of PInf]
    classifyRisk_tiers [of NInf]
  by simp

section \<open>Pipeline: the reported tier and the reported concentration\<close>

lemma classifyRisk_floor: "classifyRisk (Math_max (Fin 0) x) = classifyRisk x"
  by (cases x) (simp_all add: classifyRisk_def)

text \<open>
  C9. For every input triple the risk field of the result is the classifier applied to the
  toxic value reported in the same result, the one floored at zero: the classifier runs on
  the unfloored value, and flooring never moves a value across a threshold.
\<close>

theorem risk_matches_reported:
  "risk (predictAmmoniaRisk temp_c p ec)
     = classifyRisk (toxicNH3 (predictAmmoniaRisk temp_c p ec))"
  by (simp add: predictAmmoniaRisk_def Let_def classifyRisk_floor)

text \<open>
  C10. When one of the three inputs is NaN, the result has TAN and toxicNH3 equal to NaN and
  the tier CRITICAL: both comparisons of the classifier are false on NaN.
\<close>

theorem predict_NaN:
  "temp_c = NaN \<or> p = NaN \<or> ec = NaN \<Longrightarrow>
   TAN (predictAmmoniaRisk temp_c p ec) = NaN
   \<and> toxicNH3 (predictAmmoniaRisk temp_c p ec) = NaN
   \<and> risk (predictAmmoniaRisk temp_c p ec) = CRITICAL
   \<and> \<not> js_lt NaN (Fin 0.05) \<and> \<not> js_lt NaN (Fin 0.34) \<and> classifyRisk NaN = CRITICAL"
proof -
  assume h: "temp_c = NaN \<or> p = NaN \<or> ec = NaN"
  have "forestPredict (standardScale [temp_c, ec, p, js_mul p temp_c, js_mul ec p]) = NaN"
    unfolding standardScale_5 by (rule forestPredict_NaN) (use h in auto)
  then show ?thesis
    by (simp add: predictAmmoniaRisk_def Let_def classifyRisk_def)
qed

theorem predict_NaN_witness:
  "TAN (predictAmmoniaRisk NaN (Fin 7) (Fin 1200)) = NaN
   \<and> toxicNH3 (predictAmmoniaRisk (Fin 25) NaN (Fin 1200)) = NaN
   \<and> risk (predictAmmoniaRisk (Fin 25) (Fin 7) NaN) = CRITICAL"
  using predict_NaN [of NaN "Fin 7" "Fin 1200"] predict_NaN [of "Fin 25" NaN "Fin 1200"]
    predict_NaN [of "Fin 25" "Fin 7" NaN]
  by simp

section \<open>Regression surrogate: the formula\<close>

lemma clamp_max_min:
  "lo \<le> hi \<Longrightarrow> clamp (Fin lo) (Fin hi) v = Math_max (Fin lo) (Math_min v (Fin hi))"
  by (cases v) (auto simp add: clamp_def)

text \<open>
  C1. On every 5-tuple of scaled features \<open>forestPredict\<close> computes the intercept plus the
  five positional weights times the features, plus the cross terms
  \<open>0.04 Temp EC + 0.03 EC pH + 0.02 Temp pH_Temp\<close>, then the saturation
  \<open>2.8 tanh (v / 2.8)\<close>, then the clamp to \<open>[-0.05, 3.2]\<close>, in that order.
\<close>

theorem forestPredict_formula:
  "forestPredict [Temp_s, EC_s, pH_s, pH_Temp_s, EC_pH_s]
     = surrogate_spec Temp_s EC_s pH_s pH_Temp_s EC_pH_s"
  by (simp add: forestPredict_def surrogate_spec_def Let_def js_index_def
      linear_combination_def positional_weights_def saturate_def clamp_max_min MODEL_def)


section \<open>Heatmap grid: the loops\<close>

declare heatmap_inner.simps [simp del] heatmap_outer.simps [simp del]

lemma heatmap_inner_map:
  "heatmap_inner tr pr ec steps tS pS i j row
     = row @ map (heatmap_cell tr pr ec tS pS i) [j ..< steps]"
proof (induction tr pr ec steps tS pS i j row rule: heatmap_inner.induct)
  case (1 tr pr ec steps tS pS i j row)
  show ?case
  proof (cases "j < steps")
    case True
    then have "[j ..< steps] = j # [Suc j ..< steps]" by (simp add: upt_conv_Cons)
    with True 1 show ?thesis
      by (subst heatmap_inner.simps) (simp add: Let_def heatmap_cell_def)
  next
    case False
    then show ?thesis by (subst heatmap_inner.simps) simp
  qed
qed

lemma heatmap_outer_map:
  "heatmap_outer tr pr ec steps tS pS i data
     = data @ map (\<lambda>i. map (heatmap_cell tr pr ec tS pS i) [0 ..< steps]) [i ..< steps]"
proof (induction tr pr ec steps tS pS i data rule: heatmap_outer.induct)
  case (1 tr pr ec steps tS pS i data)
  show ?case
  proof (cases "i < steps")
    case True
    then have "[i ..< steps] = i # [Suc i ..< steps]" by (simp add: upt_conv_Cons)
    with True 1 show ?thesis
      by (subst heatmap_outer.simps) (simp add: heatmap_inner_map)
  next
    case False
    then show ?thesis by (subst heatmap_outer.simps) simp
  qed
qed

lemma generateHeatmapData_grid:
  "generateHeatmapData tr pr ec steps =
     map (\<lambda>i. map (heatmap_cell tr pr ec
        (js_div (js_sub (js_index tr 1) (js_index tr 0)) (js_sub (Fin (real steps)) (Fin 1)))
        (js_div (js_sub (js_index pr 1) (js_index pr 0)) (js_sub (Fin (real steps)) (Fin 1))) i)
        [0 ..< steps]) [0 ..< steps]"
  by (simp add: generateHeatmapData_def Let_def heatmap_outer_map)

lemma dbl_limit_pos: "0 < dbl_limit"
  by (simp add: dbl_limit_def)

lemma ovf_0 [simp]: "ovf 0 = Fin 0"
  using dbl_limit_pos by (simp add: ovf_def)

lemma zero_step_NaN: "js_mul (Fin 0) (js_div x (Fin 0)) = NaN"
  by (cases x) auto

lemma one_minus_one: "js_sub (Fin 1) (Fin 1) = Fin 0"
  by (simp add: js_sub_def)

lemma pipeline_NaN:
  "predictAmmoniaRisk NaN NaN ec = \<lparr> TAN = NaN, toxicNH3 = NaN, risk = CRITICAL \<rparr>"
  by (simp add: predictAmmoniaRisk_def Let_def standardScale_5 forestPredict_NaN
      classifyRisk_def)

text \<open>
  C3. With \<open>steps = 1\<close> the divisor \<open>steps - 1\<close> is zero and the quotient is taken all the
  same: each step is an infinity or NaN, and zero times it is NaN. The grid has one row of
  one cell, and that cell's temperature and pH are NaN, not the low ends of the ranges; the
  prediction it carries is the one of a NaN sample.
\<close>

theorem heatmap_single_step:
  "generateHeatmapData tempRange phRange ec 1
     = [[\<lparr> TAN = NaN, toxicNH3 = NaN, risk = CRITICAL, temp = NaN, pH = NaN \<rparr>]]"
  by (simp add: generateHeatmapData_grid heatmap_cell_def Let_def one_minus_one
      zero_step_NaN pipeline_NaN)

section \<open>Overflow and bounds\<close>

lemma dbl_limit_gt: "10 ^ 300 < dbl_limit"
  by (simp add: dbl_limit_def)

lemma lt_dbl_limit: "x \<le> 10 ^ 300 \<Longrightarrow> x < dbl_limit"
  by (erule order_le_less_trans) (rule dbl_limit_gt)

lemma ovf_Fin: "\<bar>x\<bar> < dbl_limit \<Longrightarrow> ovf x = Fin x"
  by (auto simp add: ovf_def)

lemma ovf_not_NaN [simp]: "ovf x \<noteq> NaN"
  by (simp add: ovf_def)

lemma saturate_bounded:
  assumes "v \<noteq> NaN"
  shows "\<exists>y. js_mul (Fin 2.8) (Math_tanh (js_div v (Fin 2.8))) = Fin y \<and> \<bar>y\<bar> \<le> 2.8"
proof -
  have "js_div v (Fin 2.8) \<noteq> NaN" using assms by (cases v) auto
  then obtain u where u: "Math_tanh (js_div v (Fin 2.8)) = Fin u" and ub: "\<bar>u\<bar> \<le> 1"
    using tanh_real_lt_1 tanh_real_gt_neg1
    by (cases "js_div v (Fin 2.8)") (auto simp add: abs_le_iff less_imp_le)
  have b: "\<bar>2.8 * u\<bar> \<le> 2.8" using ub by (simp add: abs_mult)
  have "\<bar>2.8 * u\<bar> < dbl_limit"
  proof (rule lt_dbl_limit)
    have "(2.8::real) \<le> 10 ^ 300" by simp
    with b show "\<bar>2.8 * u\<bar> \<le> 10 ^ 300" by (rule order_trans)
  qed
  then have "js_mul (Fin 2.8) (Fin u) = Fin (2.8 * u)"
    by (simp only: js_mul.simps ovf_Fin)
  with u b show ?thesis by (intro exI [of _ "2.8 * u"]) (simp only: simp_thms)
qed

lemma bounded_by_Fin [simp]: "bounded_by B (Fin r) = (\<bar>r\<bar> \<le> B)"
  by (simp add: bounded_by_def)

lemma bounded_by_not_NaN: "bounded_by B x \<Longrightarrow> x \<noteq> NaN"
  by (auto simp add: bounded_by_def)

lemma bounded_by_cases: "bounded_by B x \<Longrightarrow> \<exists>r. x = Fin r \<and> \<bar>r\<bar> \<le> B"
  by (cases x) (auto simp add: bounded_by_def)

lemma bounded_by_small: "\<bar>c\<bar> \<le> 1 \<Longrightarrow> bounded_by (10 ^ 0) (Fin c)"
  by simp

lemma pow10_lt_limit: "l \<le> 300 \<Longrightarrow> x \<le> 10 ^ l \<Longrightarrow> x < dbl_limit"
proof -
  assume l: "l \<le> 300" and x: "x \<le> 10 ^ l"
  have "(10::real) ^ l \<le> 10 ^ 300" using l by (intro power_increasing) auto
  with x have "x \<le> 10 ^ 300" by (rule order_trans)
  then show ?thesis by (rule lt_dbl_limit)
qed

lemma bounded_by_ovf:
  "\<bar>r\<bar> \<le> 10 ^ l \<Longrightarrow> l \<le> 300 \<Longrightarrow> bounded_by (10 ^ l) (ovf r)"
proof -
  assume r: "\<bar>r\<bar> \<le> 10 ^ l" and l: "l \<le> 300"
  have "\<bar>r\<bar> < dbl_limit" using l r by (rule pow10_lt_limit)
  then have "ovf r = Fin r" by (rule ovf_Fin)
  with r show ?thesis by (simp only: bounded_by_Fin)
qed

lemma bounded_by_mul:
  assumes "bounded_by (10 ^ j) x" and "bounded_by (10 ^ k) y" and "j + k \<le> l" and "l \<le> 300"
  shows "bounded_by (10 ^ l) (js_mul x y)"
proof -
  obtain a where a: "x = Fin a" "\<bar>a\<bar> \<le> 10 ^ j" using assms(1) bounded_by_cases by blast
  obtain b where b: "y = Fin b" "\<bar>b\<bar> \<le> 10 ^ k" using assms(2) bounded_by_cases by blast
  have "\<bar>a * b\<bar> \<le> 10 ^ j * 10 ^ k"
    unfolding abs_mult using a(2) b(2) by (intro mult_mono) auto
  also have "\<dots> = (10::real) ^ (j + k)" by (simp only: power_add)
  also have "\<dots> \<le> 10 ^ l" using assms(3) by (intro power_increasing) auto
  finally have "bounded_by (10 ^ l) (ovf (a * b))" using assms(4) by (rule bounded_by_ovf)
  then show ?thesis by (simp only: a b js_mul.simps)
qed

lemma pow10_sum:
  assumes "j < l" and "k < l"
  shows "(10::real) ^ j + 10 ^ k \<le> 10 ^ l"
proof -
  obtain m where m: "l = Suc m" using assms(1) by (cases l) auto
  have "(10::real) ^ j \<le> 10 ^ m" using assms(1) m by (intro power_increasing) auto
  moreover have "(10::real) ^ k \<le> 10 ^ m" using assms(2) m by (intro power_increasing) auto
  ultimately have "(10::real) ^ j + 10 ^ k \<le> 2 * 10 ^ m" by linarith
  also have "\<dots> \<le> 10 * 10 ^ m" by (intro mult_right_mono) auto
  finally show ?thesis by (simp only: m power_Suc)
qed

lemma bounded_by_add:
  assumes "bounded_by (10 ^ j) x" and "bounded_by (10 ^ k) y" and "j < l" and "k < l"
    and "l \<le> 300"
  shows "bounded_by (10 ^ l) (js_add x y)"
proof -
  obtain a where a: "x = Fin a" "\<bar>a\<bar> \<le> 10 ^ j" using assms(1) bounded_by_cases by blast
  obtain b where b: "y = Fin b" "\<bar>b\<bar> \<le> 10 ^ k" using assms(2) bounded_by_cases by blast
  have "\<bar>a + b\<bar> \<le> 10 ^ j + 10 ^ k" using a(2) b(2) by linarith
  also have "\<dots> \<le> 10 ^ l" using assms(3,4) by (rule pow10_sum)
  finally have "bounded_by (10 ^ l) (ovf (a + b))" using assms(5) by (rule bounded_by_ovf)
  then show ?thesis by (simp only: a b js_add.simps)
qed

lemma bounded_by_sub:
  assumes "bounded_by (10 ^ j) x" and "bounded_by (10 ^ k) y" and "j < l" and "k < l"
    and "l \<le> 300"
  shows "bounded_by (10 ^ l) (js_sub x y)"
proof -
  have "bounded_by (10 ^ k) (js_neg y)"
    using assms(2) by (cases y) (auto simp add: bounded_by_def)
  with assms(1) show ?thesis unfolding js_sub_def using assms(3,4,5) by (rule bounded_by_add)
qed

lemma bounded_by_div:
  assumes "bounded_by (10 ^ j) x" and "1 / 10 \<le> c" and "j < l" and "l \<le> 300"
  shows "bounded_by (10 ^ l) (js_div x (Fin c))"
proof -
  obtain a where a: "x = Fin a" "\<bar>a\<bar> \<le> 10 ^ j" using assms(1) bounded_by_cases by blast
  have c: "0 < c" using assms(2) by simp
  have "\<bar>a / c\<bar> = \<bar>a\<bar> / c" using c by simp
  also have "\<dots> \<le> 10 ^ j / c" using a(2) c by (simp add: divide_right_mono)
  also have "\<dots> \<le> 10 ^ j / (1 / 10)" using assms(2) by (intro divide_left_mono) auto
  also have "\<dots> = 10 ^ Suc j" by simp
  also have "\<dots> \<le> 10 ^ l" using assms(3) by (intro power_increasing) auto
  finally have "bounded_by (10 ^ l) (ovf (a / c))" using assms(4) by (rule bounded_by_ovf)
  moreover have "js_div (Fin a) (Fin c) = ovf (a / c)" using c by simp
  ultimately show ?thesis by (simp only: a)
qed

lemma forestPredict_forest_sum:
  "forestPredict xs =
     Math_max (Fin (- 0.05))
       (Math_min (js_mul (Fin 2.8) (Math_tanh (js_div (forest_sum xs) (Fin 2.8)))) (Fin 3.2))"
  by (simp add: forestPredict_def forest_sum_def Let_def MODEL_def)

lemma forestPredict_sum_NaN: "forest_sum xs = NaN \<Longrightarrow> forestPredict xs = NaN"
  by (simp add: forestPredict_forest_sum)

lemma forestPredict_Fin:
  assumes "forest_sum xs \<noteq> NaN"
  shows "\<exists>y. forestPredict xs = Fin y \<and> - 0.05 \<le> y \<and> y \<le> 3.2"
proof -
  from saturate_bounded [OF assms] obtain u
    where u: "js_mul (Fin 2.8) (Math_tanh (js_div (forest_sum xs) (Fin 2.8))) = Fin u"
      and ub: "\<bar>u\<bar> \<le> 2.8" by blast
  have "forestPredict xs = Fin (max (- 0.05) u)"
    unfolding forestPredict_forest_sum u using ub by auto
  moreover have "- 0.05 \<le> max (- 0.05) u \<and> max (- 0.05) u \<le> 3.2" using ub by auto
  ultimately show ?thesis by blast
qed

lemma forest_sum_5:
  "forest_sum [a, b, c, d, e] =
     js_add (js_add (js_add
       (js_add (js_add (js_add (js_add (js_add (Fin (- 0.12)) (js_mul (Fin 0.08) a))
         (js_mul (Fin 0.22) b)) (js_mul (Fin (- 0.05)) c)) (js_mul (Fin 0.12) d))
         (js_mul (Fin 0.11) e))
       (js_mul (js_mul (Fin 0.04) a) b)) (js_mul (js_mul (Fin 0.03) b) c))
       (js_mul (js_mul (Fin 0.02) a) d)"
  by (simp add: forest_sum_def Let_def js_index_def MODEL_def)

lemma forest_sum_bounded:
  assumes a: "bounded_by (10 ^ 100) a" and b: "bounded_by (10 ^ 100) b"
    and c: "bounded_by (10 ^ 100) c" and d: "bounded_by (10 ^ 100) d"
    and e: "bounded_by (10 ^ 100) e"
  shows "bounded_by (10 ^ 208) (forest_sum [a, b, c, d, e])"
proof -
  have m1: "bounded_by (10 ^ 100) (js_mul (Fin 0.08) a)"
    by (rule bounded_by_mul [OF bounded_by_small a]) simp_all
  have m2: "bounded_by (10 ^ 100) (js_mul (Fin 0.22) b)"
    by (rule bounded_by_mul [OF bounded_by_small b]) simp_all
  have m3: "bounded_by (10 ^ 100) (js_mul (Fin (- 0.05)) c)"
    by (rule bounded_by_mul [OF bounded_by_small c]) simp_all
  have m4: "bounded_by (10 ^ 100) (js_mul (Fin 0.12) d)"
    by (rule bounded_by_mul [OF bounded_by_small d]) simp_all
  have m5: "bounded_by (10 ^ 100) (js_mul (Fin 0.11) e)"
    by (rule bounded_by_mul [OF bounded_by_small e]) simp_all
  have c1a: "bounded_by (10 ^ 100) (js_mul (Fin 0.04) a)"
    by (rule bounded_by_mul [OF bounded_by_small a]) simp_all
  have c2a: "bounded_by (10 ^ 100) (js_mul (Fin 0.03) b)"
    by (rule bounded_by_mul [OF bounded_by_small b]) simp_all
  have c3a: "bounded_by (10 ^ 100) (js_mul (Fin 0.02) a)"
    by (rule bounded_by_mul [OF bounded_by_small a]) simp_all
  have c1: "bounded_by (10 ^ 200) (js_mul (js_mul (Fin 0.04) a) b)"
    by (rule bounded_by_mul [OF c1a b]) simp_all
  have c2: "bounded_by (10 ^ 200) (js_mul (js_mul (Fin 0.03) b) c)"
    by (rule bounded_by_mul [OF c2a c]) simp_all
  have c3: "bounded_by (10 ^ 200) (js_mul (js_mul (Fin 0.02) a) d)"
    by (rule bounded_by_mul [OF c3a d]) simp_all
  have i: "bounded_by (10 ^ 0) (Fin (- 0.12))" by (rule bounded_by_small) simp
  note s1 = bounded_by_add [OF i m1, of 101]
  note s2 = bounded_by_add [OF s1 m2, of 102]
  note s3 = bounded_by_add [OF s2 m3, of 103]
  note s4 = bounded_by_add [OF s3 m4, of 104]
  note s5 = bounded_by_add [OF s4 m5, of 105]
  note s6 = bounded_by_add [OF s5 c1, of 206]
  note s7 = bounded_by_add [OF s6 c2, of 207]
  note s8 = bounded_by_add [OF s7 c3, of 208]
  show ?thesis unfolding forest_sum_5 by (rule s8) simp_all
qed

lemma standardScale_bounded:
  assumes t: "bounded_by (10 ^ 40) t" and p: "bounded_by (10 ^ 40) p"
    and e: "bounded_by (10 ^ 40) e"
  shows "\<exists>a b c d f. standardScale [t, e, p, js_mul p t, js_mul e p] = [a, b, c, d, f]
     \<and> bounded_by (10 ^ 100) a \<and> bounded_by (10 ^ 100) b \<and> bounded_by (10 ^ 100) c
     \<and> bounded_by (10 ^ 100) d \<and> bounded_by (10 ^ 100) f"
proof -
  have pt: "bounded_by (10 ^ 80) (js_mul p t)" by (rule bounded_by_mul [OF p t]) simp_all
  have ep: "bounded_by (10 ^ 80) (js_mul e p)" by (rule bounded_by_mul [OF e p]) simp_all
  have k: "bounded_by (10 ^ 4) (Fin 26.5)" "bounded_by (10 ^ 4) (Fin 1180.0)"
    "bounded_by (10 ^ 4) (Fin 7.2)" "bounded_by (10 ^ 4) (Fin 191.28)"
    "bounded_by (10 ^ 4) (Fin 8496.0)"
    by simp_all
  have a: "bounded_by (10 ^ 100) (js_div (js_sub t (Fin 26.5)) (Fin 3.8))"
    by (rule bounded_by_div [OF bounded_by_sub [OF t k(1), of 41]]) simp_all
  have b: "bounded_by (10 ^ 100) (js_div (js_sub e (Fin 1180.0)) (Fin 350.0))"
    by (rule bounded_by_div [OF bounded_by_sub [OF e k(2), of 41]]) simp_all
  have c: "bounded_by (10 ^ 100) (js_div (js_sub p (Fin 7.2)) (Fin 0.45))"
    by (rule bounded_by_div [OF bounded_by_sub [OF p k(3), of 41]]) simp_all
  have d: "bounded_by (10 ^ 100) (js_div (js_sub (js_mul p t) (Fin 191.28)) (Fin 30.5))"
    by (rule bounded_by_div [OF bounded_by_sub [OF pt k(4), of 81]]) simp_all
  have f: "bounded_by (10 ^ 100) (js_div (js_sub (js_mul e p) (Fin 8496.0)) (Fin 2800.0))"
    by (rule bounded_by_div [OF bounded_by_sub [OF ep k(5), of 81]]) simp_all
  from a b c d f show ?thesis unfolding standardScale_5 by blast
qed

lemma exp_le_81: "y \<le> 3.2 \<Longrightarrow> exp (y::real) \<le> 81"
proof -
  assume "y \<le> 3.2"
  then have "exp y \<le> exp (of_nat 4 * 1)" by simp
  also have "\<dots> = exp 1 ^ 4" by (rule exp_of_nat_mult)
  also have "\<dots> \<le> 3 ^ 4" by (intro power_mono exp_le) simp
  finally show ?thesis by simp
qed

lemma expm1_Fin:
  assumes "y \<le> 3.2"
  shows "Math_expm1 (Fin y) = Fin (exp y - 1)" and "\<bar>exp y - 1\<bar> \<le> 10 ^ 2"
proof -
  have "0 < exp y" by simp
  with exp_le_81 [OF assms] have "\<bar>exp y - 1\<bar> \<le> 100" by linarith
  then show b: "\<bar>exp y - 1\<bar> \<le> 10 ^ 2" by simp
  then have "\<bar>exp y - 1\<bar> < dbl_limit" by (intro pow10_lt_limit [of 2]) simp_all
  then show "Math_expm1 (Fin y) = Fin (exp y - 1)" by (simp add: ovf_Fin)
qed

text \<open>The unionized fraction of a finite sample is a finite number between 0 and 1.\<close>

lemma ovf_nonneg_cases: "0 \<le> x \<Longrightarrow> ovf x = PInf \<or> ovf x = Fin x"
  using dbl_limit_pos by (auto simp add: ovf_def)

lemma fraction_of_pow:
  assumes "w = PInf \<or> (\<exists>r. w = Fin r \<and> 0 \<le> r)"
  shows "\<exists>f. js_div (Fin 1.0) (js_add (Fin 1.0) w) = Fin f \<and> 0 \<le> f \<and> f \<le> 1"
proof -
  from assms consider "w = PInf" | r where "w = Fin r" "0 \<le> r" by blast
  then show ?thesis
  proof cases
    case 1
    then show ?thesis by simp
  next
    case 2
    from ovf_nonneg_cases [of "1 + r"] 2(2)
    consider "ovf (1 + r) = PInf" | "ovf (1 + r) = Fin (1 + r)" by fastforce
    then show ?thesis
    proof cases
      case 1
      then show ?thesis using 2 by simp
    next
      case b: 2
      have q: "0 \<le> 1 / (1 + r)" "1 / (1 + r) \<le> 1" using 2(2) by simp_all
      then have "\<bar>1 / (1 + r)\<bar> \<le> 10 ^ 0" by simp
      then have "\<bar>1 / (1 + r)\<bar> < dbl_limit" by (intro pow10_lt_limit [of 0]) simp_all
      then have "ovf (1 / (1 + r)) = Fin (1 / (1 + r))" by (rule ovf_Fin)
      moreover have "1 + r \<noteq> 0" using 2(2) by simp
      ultimately have "js_div (Fin 1.0) (js_add (Fin 1.0) w) = Fin (1 / (1 + r))"
        using 2(1) b by simp
      with q show ?thesis by blast
    qed
  qed
qed

lemma pow10_cases:
  assumes "x \<noteq> NaN"
  shows "Math_pow10 x = PInf \<or> (\<exists>r. Math_pow10 x = Fin r \<and> 0 \<le> r)"
proof (cases x)
  case (Fin a)
  have "0 \<le> 10 powr a" by simp
  from ovf_nonneg_cases [OF this] show ?thesis using Fin by auto
qed (use assms in auto)

lemma Fin_add_not_NaN: "y \<noteq> NaN \<Longrightarrow> js_add (Fin a) y \<noteq> NaN"
  by (cases y) auto

lemma add_Fin_not_NaN: "x \<noteq> NaN \<Longrightarrow> js_add x (Fin b) \<noteq> NaN"
  by (cases x) auto

lemma pos_div_not_NaN: "0 < a \<Longrightarrow> y \<noteq> NaN \<Longrightarrow> js_div (Fin a) y \<noteq> NaN"
  by (cases y) auto

lemma emersonPhysics_fraction:
  "\<exists>f. 0 \<le> f \<and> f \<le> 1 \<and> (\<forall>tan. emersonPhysics tan (Fin t) (Fin p) = js_mul tan (Fin f))"
proof -
  have k: "js_add (Fin t) (Fin 273.15) \<noteq> NaN" by simp
  have "js_div (Fin 2729.92) (js_add (Fin t) (Fin 273.15)) \<noteq> NaN"
    by (rule pos_div_not_NaN [OF _ k]) simp
  then have "js_add (Fin 0.09018) (js_div (Fin 2729.92) (js_add (Fin t) (Fin 273.15))) \<noteq> NaN"
    by (rule Fin_add_not_NaN)
  then have "js_sub (js_add (Fin 0.09018) (js_div (Fin 2729.92) (js_add (Fin t) (Fin 273.15))))
      (Fin p) \<noteq> NaN"
    unfolding js_sub_def js_neg.simps by (rule add_Fin_not_NaN)
  from fraction_of_pow [OF pow10_cases [OF this]] obtain f
    where f: "js_div (Fin 1.0) (js_add (Fin 1.0) (Math_pow10
        (js_sub (js_add (Fin 0.09018) (js_div (Fin 2729.92) (js_add (Fin t) (Fin 273.15))))
          (Fin p)))) = Fin f"
      and fb: "0 \<le> f" "f \<le> 1"
    by blast
  have "\<forall>tan. emersonPhysics tan (Fin t) (Fin p) = js_mul tan (Fin f)"
    unfolding emersonPhysics_def Let_def f by simp
  with fb show ?thesis by (intro exI [of _ f] conjI)
qed

lemma floor_zero_nonneg: "x \<noteq> NaN \<Longrightarrow> js_le (Fin 0) (Math_max (Fin 0) x)"
  by (cases x) auto

lemma pipeline_nonneg:
  assumes "forest_sum (standardScale [Fin t, Fin e, Fin p, js_mul (Fin p) (Fin t),
      js_mul (Fin e) (Fin p)]) \<noteq> NaN"
  shows "js_le (Fin 0) (TAN (predictAmmoniaRisk (Fin t) (Fin p) (Fin e)))
     \<and> js_le (Fin 0) (toxicNH3 (predictAmmoniaRisk (Fin t) (Fin p) (Fin e)))"
proof -
  let ?xs = "standardScale [Fin t, Fin e, Fin p, js_mul (Fin p) (Fin t), js_mul (Fin e) (Fin p)]"
  from forestPredict_Fin [OF assms] obtain y
    where y: "forestPredict ?xs = Fin y" and yb: "- 0.05 \<le> y" "y \<le> 3.2" by blast
  note tn = expm1_Fin [OF yb(2)]
  obtain f where f: "0 \<le> f" "f \<le> 1"
    and em: "\<And>tan. emersonPhysics tan (Fin t) (Fin p) = js_mul tan (Fin f)"
    using emersonPhysics_fraction [of t p] by blast
  have "\<bar>(exp y - 1) * f\<bar> \<le> \<bar>exp y - 1\<bar> * 1"
    unfolding abs_mult using f by (intro mult_left_mono) auto
  with tn(2) have "\<bar>(exp y - 1) * f\<bar> \<le> 10 ^ 2" by simp
  then have "\<bar>(exp y - 1) * f\<bar> < dbl_limit" by (intro pow10_lt_limit [of 2]) simp_all
  then have tox: "js_mul (Fin (exp y - 1)) (Fin f) = Fin ((exp y - 1) * f)"
    by (simp add: ovf_Fin)
  show ?thesis
    unfolding predictAmmoniaRisk_def Let_def y tn(1) em tox by simp
qed

section \<open>Overflow to NaN\<close>

lemma dbl_limit_lt: "dbl_limit < 10 ^ 309"
  by (simp add: dbl_limit_def)

lemma ovf_PInf:
  assumes "10 ^ 309 \<le> x"
  shows "ovf x = PInf"
proof -
  have "dbl_limit \<le> x" using dbl_limit_lt assms by (rule less_imp_le [OF less_le_trans])
  then show ?thesis unfolding ovf_def by (simp only: if_True)
qed

lemma ovf_NInf:
  assumes "x \<le> - (10 ^ 309)"
  shows "ovf x = NInf"
proof -
  have "- (10 ^ 309) < - dbl_limit" using dbl_limit_lt by (simp only: neg_less_iff_less)
  with assms have a: "x < - dbl_limit" by (rule le_less_trans)
  then have b: "x \<le> - dbl_limit" by (rule less_imp_le)
  have "\<not> dbl_limit \<le> x" using a dbl_limit_pos by linarith
  with b show ?thesis unfolding ovf_def by (simp only: if_True if_False)
qed

lemma bounded_by_pow10: "bounded_by (10 ^ k) (Fin (10 ^ k))"
  by simp

lemma bounded_by_neg_pow10: "bounded_by (10 ^ k) (Fin (- (10 ^ k)))"
  by simp

lemma pow10_square: "1 \<le> w * 10 ^ 3 \<Longrightarrow> (10::real) ^ 309 \<le> w * 10 ^ 156 * 10 ^ 156"
proof -
  assume w: "1 \<le> w * 10 ^ 3"
  have "(156::nat) + 156 = 3 + 309" by simp
  then have e: "(10::real) ^ 156 * 10 ^ 156 = 10 ^ 3 * 10 ^ 309"
    by (simp only: power_add [symmetric])
  have "1 * (10::real) ^ 309 \<le> (w * 10 ^ 3) * 10 ^ 309"
    using w by (intro mult_right_mono) auto
  also have "\<dots> = w * (10 ^ 156 * 10 ^ 156)" by (simp only: e mult.assoc)
  finally show ?thesis by (simp only: mult.assoc mult_1)
qed

lemma cross_term_overflow:
  assumes "\<bar>w\<bar> \<le> 1" and "1 \<le> w * 10 ^ 3"
  shows "js_mul (js_mul (Fin w) (Fin (10 ^ 156))) (Fin (10 ^ 156)) = PInf"
    and "js_mul (js_mul (Fin w) (Fin (10 ^ 156))) (Fin (- (10 ^ 156))) = NInf"
proof -
  have "\<bar>w * 10 ^ 156\<bar> \<le> 1 * 10 ^ 156"
    unfolding abs_mult using assms(1) by (intro mult_mono) auto
  then have "\<bar>w * 10 ^ 156\<bar> < dbl_limit" by (intro pow10_lt_limit [of 156]) simp_all
  then have i: "js_mul (Fin w) (Fin (10 ^ 156)) = Fin (w * 10 ^ 156)"
    by (simp only: js_mul.simps ovf_Fin)
  note big = pow10_square [OF assms(2)]
  have "ovf (w * 10 ^ 156 * 10 ^ 156) = PInf" using big by (rule ovf_PInf)
  then show "js_mul (js_mul (Fin w) (Fin (10 ^ 156))) (Fin (10 ^ 156)) = PInf"
    unfolding i by (simp only: js_mul.simps)
  have "w * 10 ^ 156 * - (10 ^ 156) = - (w * 10 ^ 156 * 10 ^ 156)"
    by (simp only: mult_minus_right)
  also have "\<dots> \<le> - (10 ^ 309)" using big by (simp only: neg_le_iff_le)
  finally have "ovf (w * 10 ^ 156 * - (10 ^ 156)) = NInf" by (rule ovf_NInf)
  then show "js_mul (js_mul (Fin w) (Fin (10 ^ 156))) (Fin (- (10 ^ 156))) = NInf"
    unfolding i by (simp only: js_mul.simps)
qed

lemma forestPredict_overflow:
  "forestPredict [Fin (10 ^ 156), Fin (10 ^ 156), Fin (- (10 ^ 156)), Fin 0, Fin 0] = NaN"
proof -
  have z: "bounded_by (10 ^ 0) (Fin 0)" by simp
  have m1: "bounded_by (10 ^ 156) (js_mul (Fin 0.08) (Fin (10 ^ 156)))"
    by (rule bounded_by_mul [OF bounded_by_small bounded_by_pow10]) simp_all
  have m2: "bounded_by (10 ^ 156) (js_mul (Fin 0.22) (Fin (10 ^ 156)))"
    by (rule bounded_by_mul [OF bounded_by_small bounded_by_pow10]) simp_all
  have m3: "bounded_by (10 ^ 156) (js_mul (Fin (- 0.05)) (Fin (- (10 ^ 156))))"
    by (rule bounded_by_mul [OF bounded_by_small bounded_by_neg_pow10]) simp_all
  have m4: "bounded_by (10 ^ 0) (js_mul (Fin 0.12) (Fin 0))"
    by (rule bounded_by_mul [OF bounded_by_small z]) simp_all
  have m5: "bounded_by (10 ^ 0) (js_mul (Fin 0.11) (Fin 0))"
    by (rule bounded_by_mul [OF bounded_by_small z]) simp_all
  have i: "bounded_by (10 ^ 0) (Fin (- 0.12))" by (rule bounded_by_small) simp
  note s1 = bounded_by_add [OF i m1, of 157]
  note s2 = bounded_by_add [OF s1 m2, of 158]
  note s3 = bounded_by_add [OF s2 m3, of 159]
  note s4 = bounded_by_add [OF s3 m4, of 160]
  note s5 = bounded_by_add [OF s4 m5, of 161]
  have "bounded_by (10 ^ 161)
     (js_add (js_add (js_add (js_add (js_add (Fin (- 0.12))
        (js_mul (Fin 0.08) (Fin (10 ^ 156)))) (js_mul (Fin 0.22) (Fin (10 ^ 156))))
        (js_mul (Fin (- 0.05)) (Fin (- (10 ^ 156))))) (js_mul (Fin 0.12) (Fin 0)))
        (js_mul (Fin 0.11) (Fin 0)))"
    by (rule s5) simp_all
  then obtain r where r:
    "js_add (js_add (js_add (js_add (js_add (Fin (- 0.12))
        (js_mul (Fin 0.08) (Fin (10 ^ 156)))) (js_mul (Fin 0.22) (Fin (10 ^ 156))))
        (js_mul (Fin (- 0.05)) (Fin (- (10 ^ 156))))) (js_mul (Fin 0.12) (Fin 0)))
        (js_mul (Fin 0.11) (Fin 0)) = Fin r"
    using bounded_by_cases by blast
  have c1: "js_mul (js_mul (Fin 0.04) (Fin (10 ^ 156))) (Fin (10 ^ 156)) = PInf"
    by (rule cross_term_overflow(1)) simp_all
  have c2: "js_mul (js_mul (Fin 0.03) (Fin (10 ^ 156))) (Fin (- (10 ^ 156))) = NInf"
    by (rule cross_term_overflow(2)) simp_all
  have "forest_sum [Fin (10 ^ 156), Fin (10 ^ 156), Fin (- (10 ^ 156)), Fin 0, Fin 0] = NaN"
    unfolding forest_sum_5 r c1 c2 by (simp only: js_add.simps)
  then show ?thesis by (rule forestPredict_sum_NaN)
qed

lemma pipeline_sum_NaN:
  assumes "forest_sum (standardScale [Fin t, Fin e, Fin p, js_mul (Fin p) (Fin t),
      js_mul (Fin e) (Fin p)]) = NaN"
  shows "TAN (predictAmmoniaRisk (Fin t) (Fin p) (Fin e)) = NaN
     \<and> toxicNH3 (predictAmmoniaRisk (Fin t) (Fin p) (Fin e)) = NaN"
  unfolding predictAmmoniaRisk_def Let_def forestPredict_sum_NaN [OF assms] by simp

lemma pipeline_sum_bounded:
  assumes "\<bar>t\<bar> \<le> 10 ^ 40" and "\<bar>p\<bar> \<le> 10 ^ 40" and "\<bar>e\<bar> \<le> 10 ^ 40"
  shows "forest_sum (standardScale [Fin t, Fin e, Fin p, js_mul (Fin p) (Fin t),
      js_mul (Fin e) (Fin p)]) \<noteq> NaN"
proof -
  have b: "bounded_by (10 ^ 40) (Fin t)" "bounded_by (10 ^ 40) (Fin p)"
    "bounded_by (10 ^ 40) (Fin e)"
    using assms by (simp_all only: bounded_by_Fin)
  from standardScale_bounded [OF b] obtain a b c d f
    where s: "standardScale [Fin t, Fin e, Fin p, js_mul (Fin p) (Fin t),
        js_mul (Fin e) (Fin p)] = [a, b, c, d, f]"
      and bs: "bounded_by (10 ^ 100) a" "bounded_by (10 ^ 100) b" "bounded_by (10 ^ 100) c"
        "bounded_by (10 ^ 100) d" "bounded_by (10 ^ 100) f"
    by blast
  from forest_sum_bounded [OF bs] show ?thesis
    unfolding s by (rule bounded_by_not_NaN)
qed

lemma square_overflow:
  "js_mul (Fin (10 ^ 156)) (Fin (10 ^ 156)) = PInf"
  "js_mul (Fin (- (10 ^ 156))) (Fin (10 ^ 156)) = NInf"
proof -
  have "(1::real) \<le> 1 * 10 ^ 3" by simp
  from pow10_square [OF this] have big: "(10::real) ^ 309 \<le> 10 ^ 156 * 10 ^ 156"
    by (simp only: mult_1)
  then have "ovf (10 ^ 156 * 10 ^ 156) = PInf" by (rule ovf_PInf)
  then show "js_mul (Fin (10 ^ 156)) (Fin (10 ^ 156)) = PInf" by (simp only: js_mul.simps)
  have "- (10 ^ 156) * 10 ^ 156 = - ((10::real) ^ 156 * 10 ^ 156)"
    by (simp only: mult_minus_left)
  also have "\<dots> \<le> - (10 ^ 309)" using big by (simp only: neg_le_iff_le)
  finally have "ovf (- (10 ^ 156) * 10 ^ 156) = NInf" by (rule ovf_NInf)
  then show "js_mul (Fin (- (10 ^ 156))) (Fin (10 ^ 156)) = NInf" by (simp only: js_mul.simps)
qed

lemma forest_sum_opposite:
  assumes a: "bounded_by (10 ^ 200) a" and b: "bounded_by (10 ^ 200) b"
    and c: "bounded_by (10 ^ 200) c"
  shows "forest_sum [a, b, c, PInf, NInf] = NaN"
proof -
  have m1: "bounded_by (10 ^ 200) (js_mul (Fin 0.08) a)"
    by (rule bounded_by_mul [OF bounded_by_small a]) simp_all
  have m2: "bounded_by (10 ^ 200) (js_mul (Fin 0.22) b)"
    by (rule bounded_by_mul [OF bounded_by_small b]) simp_all
  have m3: "bounded_by (10 ^ 200) (js_mul (Fin (- 0.05)) c)"
    by (rule bounded_by_mul [OF bounded_by_small c]) simp_all
  have i: "bounded_by (10 ^ 0) (Fin (- 0.12))" by (rule bounded_by_small) simp
  note s1 = bounded_by_add [OF i m1, of 201]
  note s2 = bounded_by_add [OF s1 m2, of 202]
  note s3 = bounded_by_add [OF s2 m3, of 203]
  have "bounded_by (10 ^ 203)
     (js_add (js_add (js_add (Fin (- 0.12)) (js_mul (Fin 0.08) a)) (js_mul (Fin 0.22) b))
        (js_mul (Fin (- 0.05)) c))"
    by (rule s3) simp_all
  then obtain r where r:
    "js_add (js_add (js_add (Fin (- 0.12)) (js_mul (Fin 0.08) a)) (js_mul (Fin 0.22) b))
        (js_mul (Fin (- 0.05)) c) = Fin r"
    using bounded_by_cases by blast
  have p: "js_mul (Fin 0.12) PInf = PInf" "js_mul (Fin 0.11) NInf = NInf" by simp_all
  show ?thesis unfolding forest_sum_5 r p by (simp only: js_add.simps)
qed

lemma predict_overflow:
  "TAN (predictAmmoniaRisk (Fin (10 ^ 156)) (Fin (10 ^ 156)) (Fin (- (10 ^ 156)))) = NaN"
proof -
  have k: "bounded_by (10 ^ 4) (Fin 26.5)" "bounded_by (10 ^ 4) (Fin 1180.0)"
    "bounded_by (10 ^ 4) (Fin 7.2)"
    by simp_all
  have a: "bounded_by (10 ^ 200) (js_div (js_sub (Fin (10 ^ 156)) (Fin 26.5)) (Fin 3.8))"
    by (rule bounded_by_div [OF bounded_by_sub [OF bounded_by_pow10 [of 156] k(1), of 157]]) simp_all
  have b: "bounded_by (10 ^ 200)
      (js_div (js_sub (Fin (- (10 ^ 156))) (Fin 1180.0)) (Fin 350.0))"
    by (rule bounded_by_div [OF bounded_by_sub [OF bounded_by_neg_pow10 [of 156] k(2), of 157]])
      simp_all
  have c: "bounded_by (10 ^ 200) (js_div (js_sub (Fin (10 ^ 156)) (Fin 7.2)) (Fin 0.45))"
    by (rule bounded_by_div [OF bounded_by_sub [OF bounded_by_pow10 [of 156] k(3), of 157]]) simp_all
  have d: "js_div (js_sub PInf (Fin 191.28)) (Fin 30.5) = PInf"
    "js_div (js_sub NInf (Fin 8496.0)) (Fin 2800.0) = NInf"
    by (simp_all add: js_sub_def)
  have "forest_sum (standardScale [Fin (10 ^ 156), Fin (- (10 ^ 156)), Fin (10 ^ 156),
      js_mul (Fin (10 ^ 156)) (Fin (10 ^ 156)),
      js_mul (Fin (- (10 ^ 156))) (Fin (10 ^ 156))]) = NaN"
    unfolding square_overflow standardScale_5 d by (rule forest_sum_opposite [OF a b c])
  from pipeline_sum_NaN [OF this] show ?thesis by (rule conjunct1)
qed

section \<open>Pipeline: non-negative results\<close>

text \<open>
  C4 as stated, for every finite input, fails where an intermediate overflows:
  \<open>pH * temp_c\<close> and \<open>ec * pH\<close> become infinities of opposite sign, their weighted sum is
  NaN, and \<^verbatim>\<open>Math.max(0, NaN)\<close> is NaN.
\<close>

theorem predict_nonneg_counterexample:
  "\<not> js_le (Fin 0)
      (TAN (predictAmmoniaRisk (Fin (10 ^ 156)) (Fin (10 ^ 156)) (Fin (- (10 ^ 156)))))"
  unfolding predict_overflow by simp

text \<open>
  C4 (amended). For finite inputs of magnitude at most \<open>10^40\<close>, which covers the valid
  physical domain, the reported TAN and toxicNH3 are both at least zero. For every finite
  input they are both at least zero or both NaN.
\<close>

theorem predict_nonneg:
  "(\<bar>t\<bar> \<le> 10 ^ 40 \<and> \<bar>p\<bar> \<le> 10 ^ 40 \<and> \<bar>e\<bar> \<le> 10 ^ 40 \<longrightarrow>
      js_le (Fin 0) (TAN (predictAmmoniaRisk (Fin t) (Fin p) (Fin e)))
      \<and> js_le (Fin 0) (toxicNH3 (predictAmmoniaRisk (Fin t) (Fin p) (Fin e))))
   \<and> ((js_le (Fin 0) (TAN (predictAmmoniaRisk (Fin t) (Fin p) (Fin e)))
        \<and> js_le (Fin 0) (toxicNH3 (predictAmmoniaRisk (Fin t) (Fin p) (Fin e))))
      \<or> (TAN (predictAmmoniaRisk (Fin t) (Fin p) (Fin e)) = NaN
        \<and> toxicNH3 (predictAmmoniaRisk (Fin t) (Fin p) (Fin e)) = NaN))"
proof -
  let ?s = "forest_sum (standardScale [Fin t, Fin e, Fin p, js_mul (Fin p) (Fin t),
      js_mul (Fin e) (Fin p)])"
  let ?ok = "js_le (Fin 0) (TAN (predictAmmoniaRisk (Fin t) (Fin p) (Fin e)))
      \<and> js_le (Fin 0) (toxicNH3 (predictAmmoniaRisk (Fin t) (Fin p) (Fin e)))"
  have small: "?ok" if "\<bar>t\<bar> \<le> 10 ^ 40" "\<bar>p\<bar> \<le> 10 ^ 40" "\<bar>e\<bar> \<le> 10 ^ 40"
    using pipeline_sum_bounded [OF that] by (rule pipeline_nonneg)
  have every: "?ok \<or> (TAN (predictAmmoniaRisk (Fin t) (Fin p) (Fin e)) = NaN
        \<and> toxicNH3 (predictAmmoniaRisk (Fin t) (Fin p) (Fin e)) = NaN)"
  proof (cases "?s = NaN")
    case True
    then show ?thesis by (intro disjI2 pipeline_sum_NaN)
  next
    case False
    then show ?thesis by (intro disjI1 pipeline_nonneg)
  qed
  from small every show ?thesis by blast
qed

theorem predict_nonneg_witness:
  "js_le (Fin 0) (TAN (predictAmmoniaRisk (Fin 28) (Fin 7.5) (Fin 1200)))
   \<and> js_le (Fin 0) (toxicNH3 (predictAmmoniaRisk (Fin 28) (Fin 7.5) (Fin 1200)))"
proof -
  have "\<bar>28::real\<bar> \<le> 10 ^ 40 \<and> \<bar>7.5::real\<bar> \<le> 10 ^ 40 \<and> \<bar>1200::real\<bar> \<le> 10 ^ 40"
    by simp
  with predict_nonneg [of 28 "7.5" 1200] show ?thesis by blast
qed

section \<open>Regression surrogate: range\<close>

text \<open>
  C8 as stated, for features of any magnitude, fails where the cross terms overflow
  to infinities of opposite sign: the sum is NaN and the clamp keeps NaN.
\<close>

theorem forestPredict_range_counterexample:
  "\<not> js_le (Fin (- 0.05))
      (forestPredict [Fin (10 ^ 156), Fin (10 ^ 156), Fin (- (10 ^ 156)), Fin 0, Fin 0])"
  unfolding forestPredict_overflow by simp

text \<open>
  C8 (amended). The output of the surrogate is NaN or lies in \<open>[-0.05, 3.2]\<close>; for finite
  scaled features of magnitude at most \<open>10^100\<close> it lies in \<open>[-0.05, 3.2]\<close>.
\<close>

theorem forestPredict_range:
  "(forestPredict xs = NaN
      \<or> (js_le (Fin (- 0.05)) (forestPredict xs) \<and> js_le (forestPredict xs) (Fin 3.2)))
   \<and> (bounded_by (10 ^ 100) a \<and> bounded_by (10 ^ 100) b \<and> bounded_by (10 ^ 100) c
        \<and> bounded_by (10 ^ 100) d \<and> bounded_by (10 ^ 100) e \<longrightarrow>
      js_le (Fin (- 0.05)) (forestPredict [a, b, c, d, e])
      \<and> js_le (forestPredict [a, b, c, d, e]) (Fin 3.2))"
proof -
  have ranged: "js_le (Fin (- 0.05)) (forestPredict ys) \<and> js_le (forestPredict ys) (Fin 3.2)"
    if "forest_sum ys \<noteq> NaN" for ys
  proof -
    from forestPredict_Fin [OF that] obtain y
      where "forestPredict ys = Fin y" "- 0.05 \<le> y" "y \<le> 3.2" by blast
    then show ?thesis by simp
  qed
  have every: "forestPredict xs = NaN
      \<or> (js_le (Fin (- 0.05)) (forestPredict xs) \<and> js_le (forestPredict xs) (Fin 3.2))"
  proof (cases "forest_sum xs = NaN")
    case True
    then show ?thesis by (intro disjI1 forestPredict_sum_NaN)
  next
    case False
    then show ?thesis by (intro disjI2 ranged)
  qed
  have small: "js_le (Fin (- 0.05)) (forestPredict [a, b, c, d, e])
      \<and> js_le (forestPredict [a, b, c, d, e]) (Fin 3.2)"
    if "bounded_by (10 ^ 100) a" "bounded_by (10 ^ 100) b" "bounded_by (10 ^ 100) c"
      "bounded_by (10 ^ 100) d" "bounded_by (10 ^ 100) e"
    using bounded_by_not_NaN [OF forest_sum_bounded [OF that]] by (rule ranged)
  from every small show ?thesis by blast
qed

theorem forestPredict_range_witness:
  "js_le (Fin (- 0.05)) (forestPredict [Fin 1, Fin (- 2), Fin 0, Fin 3, Fin (- 1)])
   \<and> js_le (forestPredict [Fin 1, Fin (- 2), Fin 0, Fin 3, Fin (- 1)]) (Fin 3.2)"
proof -
  have "bounded_by (10 ^ 100) (Fin 1) \<and> bounded_by (10 ^ 100) (Fin (- 2))
    \<and> bounded_by (10 ^ 100) (Fin 0) \<and> bounded_by (10 ^ 100) (Fin 3)
    \<and> bounded_by (10 ^ 100) (Fin (- 1))"
    by simp
  with forestPredict_range [of "[]" "Fin 1" "Fin (- 2)" "Fin 0" "Fin 3" "Fin (- 1)"]
  show ?thesis by blast
qed

section \<open>Emerson equilibrium: exact form and reference value\<close>

lemma fraction_real_mono_pH:
  assumes "p1 < p2"
  shows "fraction_real t p1 < fraction_real t p2"
proof -
  have "pKa_real t - p2 < pKa_real t - p1" using assms by simp
  then have "10 powr (pKa_real t - p2) < 10 powr (pKa_real t - p1)"
    by (intro powr_less_mono) simp_all
  then have "1 + 10 powr (pKa_real t - p2) < 1 + 10 powr (pKa_real t - p1)" by simp
  then show ?thesis
    unfolding fraction_real_def
    by (rule divide_strict_left_mono) (simp_all add: add_pos_pos mult_pos_pos)
qed

lemma fraction_real_unit: "0 < fraction_real t p" "fraction_real t p < 1"
proof -
  have "0 < 10 powr (pKa_real t - p)" by simp
  then show "0 < fraction_real t p" "fraction_real t p < 1"
    unfolding fraction_real_def by (simp_all add: add_pos_pos)
qed

lemma Fin_op:
  "\<bar>a + b\<bar> \<le> 10 ^ l \<Longrightarrow> l \<le> 300 \<Longrightarrow> js_add (Fin a) (Fin b) = Fin (a + b)"
  "\<bar>a - b\<bar> \<le> 10 ^ l \<Longrightarrow> l \<le> 300 \<Longrightarrow> js_sub (Fin a) (Fin b) = Fin (a - b)"
  "\<bar>a * b\<bar> \<le> 10 ^ l \<Longrightarrow> l \<le> 300 \<Longrightarrow> js_mul (Fin a) (Fin b) = Fin (a * b)"
  "b \<noteq> 0 \<Longrightarrow> \<bar>a / b\<bar> \<le> 10 ^ l \<Longrightarrow> l \<le> 300 \<Longrightarrow> js_div (Fin a) (Fin b) = Fin (a / b)"
  "10 powr a \<le> 10 ^ l \<Longrightarrow> l \<le> 300 \<Longrightarrow> Math_pow10 (Fin a) = Fin (10 powr a)"
proof -
  show "js_add (Fin a) (Fin b) = Fin (a + b)" if "\<bar>a + b\<bar> \<le> 10 ^ l" "l \<le> 300"
    using pow10_lt_limit [OF that(2,1)] by (simp add: ovf_Fin)
  show "js_sub (Fin a) (Fin b) = Fin (a - b)" if "\<bar>a - b\<bar> \<le> 10 ^ l" "l \<le> 300"
    using pow10_lt_limit [OF that(2,1)] by (simp add: js_sub_def ovf_Fin)
  show "js_mul (Fin a) (Fin b) = Fin (a * b)" if "\<bar>a * b\<bar> \<le> 10 ^ l" "l \<le> 300"
    using pow10_lt_limit [OF that(2,1)] by (simp add: ovf_Fin)
  show "js_div (Fin a) (Fin b) = Fin (a / b)" if "b \<noteq> 0" "\<bar>a / b\<bar> \<le> 10 ^ l" "l \<le> 300"
    using pow10_lt_limit [OF that(3,2)] that(1) by (simp add: ovf_Fin)
  show "Math_pow10 (Fin a) = Fin (10 powr a)" if "10 powr a \<le> 10 ^ l" "l \<le> 300"
  proof -
    have "\<bar>10 powr a\<bar> \<le> 10 ^ l" using that(1) by simp
    from pow10_lt_limit [OF that(2) this] show ?thesis by (simp add: ovf_Fin)
  qed
qed

lemma emersonPhysics_exact:
  assumes t: "0 \<le> t" "t \<le> 100" and p: "0 \<le> p" "p \<le> 14" and n: "\<bar>x\<bar> \<le> 10 ^ 100"
  shows "emersonPhysics (Fin x) (Fin t) (Fin p) = Fin (x * fraction_real t p)"
proof -
  have k: "js_add (Fin t) (Fin 273.15) = Fin (t + 273.15)"
    by (rule Fin_op(1) [of _ _ 3]) (use t in simp_all)
  have kpos: "273.15 \<le> t + 273.15" using t by simp
  have q: "0 \<le> 2729.92 / (t + 273.15)" "2729.92 / (t + 273.15) \<le> 10"
  proof -
    show "0 \<le> 2729.92 / (t + 273.15)" using t by simp
    have "2729.92 / (t + 273.15) \<le> 2729.92 / 273.15"
      using kpos by (intro divide_left_mono) simp_all
    also have "\<dots> \<le> (10::real)" by simp
    finally show "2729.92 / (t + 273.15) \<le> 10" .
  qed
  have d: "js_div (Fin 2729.92) (Fin (t + 273.15)) = Fin (2729.92 / (t + 273.15))"
    by (rule Fin_op(4) [of _ _ 1]) (use t q in simp_all)
  have a: "js_add (Fin 0.09018) (Fin (2729.92 / (t + 273.15))) = Fin (pKa_real t)"
    unfolding pKa_real_def by (rule Fin_op(1) [of _ _ 2]) (use q in simp_all)
  have kb: "0 \<le> pKa_real t" "pKa_real t \<le> 11" using q unfolding pKa_real_def by simp_all
  have s: "js_sub (Fin (pKa_real t)) (Fin p) = Fin (pKa_real t - p)"
    by (rule Fin_op(2) [of _ _ 2]) (use kb p in simp_all)
  have "10 powr (pKa_real t - p) \<le> 10 powr (of_nat 11)"
    using kb p by (intro powr_mono) simp_all
  also have "\<dots> = 10 ^ 11" by (rule powr_realpow) simp
  finally have wb: "10 powr (pKa_real t - p) \<le> 10 ^ 11" .
  have w: "Math_pow10 (Fin (pKa_real t - p)) = Fin (10 powr (pKa_real t - p))"
    using wb by (rule Fin_op(5)) simp
  have wpos: "0 < 10 powr (pKa_real t - p)" by simp
  have o: "js_add (Fin 1) (Fin (10 powr (pKa_real t - p))) = Fin (1 + 10 powr (pKa_real t - p))"
    by (rule Fin_op(1) [of _ _ 12]) (use wb wpos in simp_all)
  have f: "js_div (Fin 1) (Fin (1 + 10 powr (pKa_real t - p))) = Fin (fraction_real t p)"
    unfolding fraction_real_def
    by (rule Fin_op(4) [of _ _ 0]) (use wpos in \<open>simp_all add: add_pos_pos less_imp_neq [THEN not_sym]\<close>)
  have "\<bar>x * fraction_real t p\<bar> \<le> \<bar>x\<bar> * 1"
    unfolding abs_mult using fraction_real_unit [of t p] by (intro mult_left_mono) auto
  with n have "\<bar>x * fraction_real t p\<bar> \<le> 10 ^ 100" by simp
  then have m: "js_mul (Fin x) (Fin (fraction_real t p)) = Fin (x * fraction_real t p)"
    by (rule Fin_op(3)) simp
  have one: "(1.0::real) = 1" by simp
  show ?thesis unfolding emersonPhysics_def Let_def one k d a s w o f m by (rule refl)
qed

lemma powr10_rat_lower:
  assumes "0 < x" and "0 < m" and "x ^ m < 10 ^ n"
  shows "x < 10 powr (real n / real m)"
proof -
  have "ln (x ^ m) < ln ((10::real) ^ n)" using assms by (simp add: ln_less_cancel_iff)
  then have "real m * ln x < real n * ln 10" using assms(1) by (simp add: ln_realpow)
  then have "ln x < real n / real m * ln 10" using assms(2) by (simp add: field_simps)
  then have "exp (ln x) < exp (real n / real m * ln 10)" by simp
  then show ?thesis using assms(1) by (simp add: powr_def)
qed

lemma powr10_rat_upper:
  assumes "0 < x" and "0 < m" and "10 ^ n < x ^ m"
  shows "10 powr (real n / real m) < x"
proof -
  have "ln ((10::real) ^ n) < ln (x ^ m)" using assms by (simp add: ln_less_cancel_iff)
  then have "real n * ln 10 < real m * ln x" using assms(1) by (simp add: ln_realpow)
  then have "real n / real m * ln 10 < ln x" using assms(2) by (simp add: field_simps)
  then have "exp (real n / real m * ln 10) < exp (ln x)" by simp
  then show ?thesis using assms(1) by (simp add: powr_def)
qed

lemma reference_power:
  "97 < 10 powr (pKa_real 26.85 - 7.2)" "10 powr (pKa_real 26.85 - 7.2) < 98"
proof -
  have e: "159 / 80 \<le> pKa_real 26.85 - 7.2" "pKa_real 26.85 - 7.2 \<le> 199 / 100"
    by (simp_all add: pKa_real_def)
  have "(97::real) ^ 80 < 10 ^ 159" by simp
  then have "97 < 10 powr (real 159 / real 80)" by (intro powr10_rat_lower) simp_all
  also have "\<dots> \<le> 10 powr (pKa_real 26.85 - 7.2)" using e(1) by (intro powr_mono) simp_all
  finally show "97 < 10 powr (pKa_real 26.85 - 7.2)" .
  have "(10::real) ^ 199 < 98 ^ 100" by simp
  then have u: "10 powr (real 199 / real 100) < 98" by (intro powr10_rat_upper) simp_all
  have "10 powr (pKa_real 26.85 - 7.2) \<le> 10 powr (real 199 / real 100)"
    using e(2) by (intro powr_mono) simp_all
  from this u show "10 powr (pKa_real 26.85 - 7.2) < 98" by (rule le_less_trans)
qed

lemma reference_fraction:
  "0.0101 < fraction_real 26.85 7.2" "fraction_real 26.85 7.2 < 0.01021"
proof -
  let ?y = "10 powr (pKa_real 26.85 - 7.2)"
  have pos: "0 < 1 + ?y" by (simp add: add_pos_pos)
  have "0.0101 * (1 + ?y) < 1" using reference_power(2) by simp
  then show "0.0101 < fraction_real 26.85 7.2"
    unfolding fraction_real_def using pos by (simp add: pos_less_divide_eq)
  have "1 < 0.01021 * (1 + ?y)" using reference_power(1) by simp
  then show "fraction_real 26.85 7.2 < 0.01021"
    unfolding fraction_real_def using pos by (simp add: pos_divide_less_eq)
qed

lemma reference_value:
  "emersonPhysics (Fin 1.0) (Fin 26.85) (Fin 7.2) = Fin (fraction_real 26.85 7.2)"
proof -
  have "emersonPhysics (Fin 1) (Fin 26.85) (Fin 7.2) = Fin (1 * fraction_real 26.85 7.2)"
    by (rule emersonPhysics_exact) simp_all
  then show ?thesis by simp
qed

text \<open>
  C6 as stated fails on its numbers: \<open>0.09018 + 2729.92 / 300\<close> is \<open>9.18991...\<close>, not
  \<open>9.18327\<close>, and the value returned is near \<open>0.0101\<close>, not \<open>0.3943\<close>.
\<close>

theorem emerson_reference_counterexample:
  "js_lt (emersonPhysics (Fin 1.0) (Fin 26.85) (Fin 7.2)) (Fin 0.01021)
   \<and> 0.09018 + 2729.92 / 300 \<noteq> (9.18327::real)"
  unfolding reference_value using reference_fraction(2) by simp

text \<open>
  C6 (amended). At TAN = 1.0, temp_c = 26.85, pH = 7.2 the converter returns
  \<open>1.0 / (1 + 10^(pKa - 7.2))\<close> with \<open>pKa = 0.09018 + 2729.92 / 300\<close>, which lies between
  9.1899 and 9.19; the value lies between 0.0101 and 0.01021.
\<close>

theorem emerson_reference:
  "emersonPhysics (Fin 1.0) (Fin 26.85) (Fin 7.2)
     = Fin (1.0 / (1 + 10 powr (pKa_real 26.85 - 7.2)))
   \<and> pKa_real 26.85 = 0.09018 + 2729.92 / 300
   \<and> 9.1899 < pKa_real 26.85 \<and> pKa_real 26.85 < 9.19
   \<and> js_lt (Fin 0.0101) (emersonPhysics (Fin 1.0) (Fin 26.85) (Fin 7.2))
   \<and> js_lt (emersonPhysics (Fin 1.0) (Fin 26.85) (Fin 7.2)) (Fin 0.01021)"
proof -
  have "emersonPhysics (Fin 1.0) (Fin 26.85) (Fin 7.2)
     = Fin (1.0 / (1 + 10 powr (pKa_real 26.85 - 7.2)))"
    unfolding reference_value fraction_real_def by simp
  moreover have "pKa_real 26.85 = 0.09018 + 2729.92 / 300"
    "9.1899 < pKa_real 26.85" "pKa_real 26.85 < 9.19"
    by (simp_all add: pKa_real_def)
  moreover have "js_lt (Fin 0.0101) (emersonPhysics (Fin 1.0) (Fin 26.85) (Fin 7.2))"
    "js_lt (emersonPhysics (Fin 1.0) (Fin 26.85) (Fin 7.2)) (Fin 0.01021)"
    unfolding reference_value using reference_fraction by simp_all
  ultimately show ?thesis by blast
qed


section \<open>Emerson equilibrium: monotonicity\<close>

lemma emersonPhysics_nh3_fraction:
  "emersonPhysics tan_mg_L temp_c p = js_mul tan_mg_L (nh3_fraction temp_c p)"
  by (simp add: emersonPhysics_def nh3_fraction_def Let_def)

lemma js_le_not_NaN: "js_le x y \<Longrightarrow> x \<noteq> NaN \<and> y \<noteq> NaN"
  by (cases x; cases y) auto

lemma ovf_mono: "x \<le> y \<Longrightarrow> js_le (ovf x) (ovf y)"
  using dbl_limit_pos by (auto simp add: ovf_def)

lemma js_le_ovf_bounds [simp]: "js_le NInf (ovf r)" "js_le (ovf r) PInf"
  by (simp_all add: ovf_def)

lemma ovf_nonneg: "0 \<le> r \<Longrightarrow> js_le (Fin 0) (ovf r)"
  using ovf_mono [of 0 r] by simp

lemma js_add_mono_right: "x \<noteq> NaN \<Longrightarrow> a \<le> b \<Longrightarrow> js_le (js_add x (Fin a)) (js_add x (Fin b))"
  by (cases x) (auto intro: ovf_mono)

lemma js_add_mono_left: "js_le x y \<Longrightarrow> js_le (js_add x (Fin c)) (js_add y (Fin c))"
  by (cases x; cases y) (auto intro: ovf_mono)

lemma js_add_Fin_mono: "js_le x y \<Longrightarrow> js_le (js_add (Fin c) x) (js_add (Fin c) y)"
  by (cases x; cases y) (auto intro: ovf_mono)

lemma Math_pow10_mono: "js_le x y \<Longrightarrow> js_le (Math_pow10 x) (Math_pow10 y)"
proof (cases x; cases y)
  fix a b assume "js_le x y" "x = Fin a" "y = Fin b"
  then show ?thesis by (auto intro: ovf_mono)
next
  fix b assume "js_le x y" "x = NInf" "y = Fin b"
  then show ?thesis by (simp add: ovf_nonneg)
next
  fix a assume "js_le x y" "x = Fin a" "y = PInf"
  then show ?thesis by (simp add: ovf_def)
qed auto

lemma Math_pow10_nonneg: "x \<noteq> NaN \<Longrightarrow> js_le (Fin 0) (Math_pow10 x)"
proof (cases x)
  case (Fin a)
  have "js_le (ovf 0) (ovf (10 powr a))" by (rule ovf_mono) simp
  then show ?thesis using Fin by simp
qed auto

lemma one_plus_ge_one: "js_le (Fin 0) w \<Longrightarrow> js_le (Fin 1) (js_add (Fin 1) w)"
proof (cases w)
  case (Fin r)
  assume "js_le (Fin 0) w"
  then have "1 \<le> 1 + r" using Fin by simp
  then have "js_le (ovf 1) (ovf (1 + r))" by (rule ovf_mono)
  moreover have "ovf 1 = Fin 1" by (rule ovf_Fin, rule pow10_lt_limit [of 0]) simp_all
  ultimately show ?thesis using Fin by simp
qed auto

lemma recip_antimono:
  assumes "js_le (Fin 1) x" and "js_le x y"
  shows "js_le (js_div (Fin 1) y) (js_div (Fin 1) x)"
proof -
  have z: "js_le (Fin 0) (ovf r)" if "0 \<le> r" for r
    using ovf_mono [OF that] by simp
  show ?thesis
  proof (cases x; cases y)
    fix a b assume h: "x = Fin a" "y = Fin b"
    then have "1 \<le> a" "a \<le> b" using assms by simp_all
    then have "1 / b \<le> 1 / a" "a \<noteq> 0" "b \<noteq> 0" by (simp_all add: frac_le)
    then show ?thesis using h by (simp add: ovf_mono)
  next
    fix a assume h: "x = Fin a" "y = PInf"
    then have "1 \<le> a" using assms by simp
    then have "0 \<le> 1 / a" "a \<noteq> 0" by simp_all
    then show ?thesis using h z by simp
  qed (use assms in auto)
qed

lemma div_antimono:
  assumes c: "0 < c" and x: "js_le (Fin 0) x" and xy: "js_le x y"
  shows "js_le (js_div (Fin c) y) (js_div (Fin c) x)"
proof -
  have z: "js_le (Fin 0) (ovf r)" if "0 \<le> r" for r
    using ovf_mono [OF that] by simp
  have top: "js_le u PInf" if "u \<noteq> NaN" for u using that by (cases u) auto
  show ?thesis
  proof (cases x; cases y)
    fix a b assume h: "x = Fin a" "y = Fin b"
    then have ab: "0 \<le> a" "a \<le> b" using assms by simp_all
    show ?thesis
    proof (cases "a = 0")
      case True
      then have "js_div (Fin c) x = PInf" using h c by simp
      moreover have "js_div (Fin c) y \<noteq> NaN" using h c by simp
      ultimately show ?thesis using top by simp
    next
      case False
      then have "0 < a" "0 < b" using ab by simp_all
      then have "c / b \<le> c / a" using ab(2) c by (simp add: frac_le)
      then show ?thesis using h \<open>0 < a\<close> \<open>0 < b\<close> by (simp add: ovf_mono)
    qed
  next
    fix a assume h: "x = Fin a" "y = PInf"
    then have a: "0 \<le> a" using assms by simp
    show ?thesis
    proof (cases "a = 0")
      case True
      then show ?thesis using h c by simp
    next
      case False
      then have "0 \<le> c / a" using a c by simp
      then show ?thesis using h False z by simp
    qed
  qed (use assms in auto)
qed

lemma js_mul_mono:
  "0 \<le> x \<Longrightarrow> f \<le> g \<Longrightarrow> js_le (js_mul (Fin x) (Fin f)) (js_mul (Fin x) (Fin g))"
  by (simp add: ovf_mono mult_left_mono)

lemma pKa_not_NaN:
  "js_add (Fin 0.09018) (js_div (Fin 2729.92) (js_add (Fin t) (Fin 273.15))) \<noteq> NaN"
proof -
  have k: "js_add (Fin t) (Fin 273.15) \<noteq> NaN" by simp
  have "js_div (Fin 2729.92) (js_add (Fin t) (Fin 273.15)) \<noteq> NaN"
    by (rule pos_div_not_NaN [OF _ k]) simp
  then show ?thesis by (rule Fin_add_not_NaN)
qed

lemma nh3_fraction_Fin:
  "\<exists>f. nh3_fraction (Fin t) (Fin p) = Fin f \<and> 0 \<le> f \<and> f \<le> 1"
proof -
  have "js_sub (js_add (Fin 0.09018) (js_div (Fin 2729.92) (js_add (Fin t) (Fin 273.15))))
      (Fin p) \<noteq> NaN"
    unfolding js_sub_def js_neg.simps using pKa_not_NaN by (rule add_Fin_not_NaN)
  from fraction_of_pow [OF pow10_cases [OF this]] show ?thesis
    unfolding nh3_fraction_def Let_def .
qed

lemma fraction_of_exponent_antimono:
  assumes "js_le x2 x1"
  shows "js_le (js_div (Fin 1.0) (js_add (Fin 1.0) (Math_pow10 x1)))
     (js_div (Fin 1.0) (js_add (Fin 1.0) (Math_pow10 x2)))"
proof -
  have one: "(1.0::real) = 1" by simp
  have "x2 \<noteq> NaN" using js_le_not_NaN [OF assms] by simp
  then have "js_le (Fin 0) (Math_pow10 x2)" by (rule Math_pow10_nonneg)
  then have lo: "js_le (Fin 1) (js_add (Fin 1) (Math_pow10 x2))" by (rule one_plus_ge_one)
  have "js_le (Math_pow10 x2) (Math_pow10 x1)" using assms by (rule Math_pow10_mono)
  then have "js_le (js_add (Fin 1) (Math_pow10 x2)) (js_add (Fin 1) (Math_pow10 x1))"
    by (rule js_add_Fin_mono)
  with lo show ?thesis unfolding one by (rule recip_antimono)
qed

lemma nh3_fraction_mono_pH:
  assumes "p1 \<le> p2"
  shows "js_le (nh3_fraction (Fin t) (Fin p1)) (nh3_fraction (Fin t) (Fin p2))"
proof -
  let ?K = "js_add (Fin 0.09018) (js_div (Fin 2729.92) (js_add (Fin t) (Fin 273.15)))"
  have "- p2 \<le> - p1" using assms by simp
  with pKa_not_NaN have "js_le (js_add ?K (Fin (- p2))) (js_add ?K (Fin (- p1)))"
    by (rule js_add_mono_right)
  then have "js_le (js_sub ?K (Fin p2)) (js_sub ?K (Fin p1))"
    by (simp only: js_sub_def js_neg.simps)
  then show ?thesis unfolding nh3_fraction_def Let_def by (rule fraction_of_exponent_antimono)
qed

lemma nh3_fraction_mono_temp:
  assumes "- 273.15 \<le> t1" and "t1 \<le> t2"
  shows "js_le (nh3_fraction (Fin t1) (Fin p)) (nh3_fraction (Fin t2) (Fin p))"
proof -
  let ?k1 = "js_add (Fin t1) (Fin 273.15)" and ?k2 = "js_add (Fin t2) (Fin 273.15)"
  have "0 \<le> t1 + 273.15" "t1 + 273.15 \<le> t2 + 273.15" using assms by simp_all
  then have k: "js_le (Fin 0) ?k1" "js_le ?k1 ?k2" by (simp_all add: ovf_nonneg ovf_mono)
  have "js_le (js_div (Fin 2729.92) ?k2) (js_div (Fin 2729.92) ?k1)"
    by (rule div_antimono [OF _ k]) simp
  then have "js_le (js_add (Fin 0.09018) (js_div (Fin 2729.92) ?k2))
      (js_add (Fin 0.09018) (js_div (Fin 2729.92) ?k1))"
    by (rule js_add_Fin_mono)
  then have "js_le (js_add (js_add (Fin 0.09018) (js_div (Fin 2729.92) ?k2)) (Fin (- p)))
      (js_add (js_add (Fin 0.09018) (js_div (Fin 2729.92) ?k1)) (Fin (- p)))"
    by (rule js_add_mono_left)
  then have "js_le (js_sub (js_add (Fin 0.09018) (js_div (Fin 2729.92) ?k2)) (Fin p))
      (js_sub (js_add (Fin 0.09018) (js_div (Fin 2729.92) ?k1)) (Fin p))"
    by (simp only: js_sub_def js_neg.simps)
  then show ?thesis unfolding nh3_fraction_def Let_def by (rule fraction_of_exponent_antimono)
qed

lemma emersonPhysics_mono:
  assumes "0 \<le> x" and "js_le (nh3_fraction (Fin t1) (Fin p1)) (nh3_fraction (Fin t2) (Fin p2))"
  shows "js_le (emersonPhysics (Fin x) (Fin t1) (Fin p1)) (emersonPhysics (Fin x) (Fin t2) (Fin p2))"
proof -
  obtain f where f: "nh3_fraction (Fin t1) (Fin p1) = Fin f" using nh3_fraction_Fin by blast
  obtain g where g: "nh3_fraction (Fin t2) (Fin p2) = Fin g" using nh3_fraction_Fin by blast
  have "f \<le> g" using assms(2) unfolding f g by simp
  with assms(1) show ?thesis unfolding emersonPhysics_nh3_fraction f g by (rule js_mul_mono)
qed

lemma pKa_exact:
  assumes "0 \<le> t" and "t \<le> 100"
  shows "js_add (Fin 0.09018) (js_div (Fin 2729.92) (js_add (Fin t) (Fin 273.15)))
      = Fin (pKa_real t)"
    and "0 \<le> pKa_real t" and "pKa_real t \<le> 11"
proof -
  have k: "js_add (Fin t) (Fin 273.15) = Fin (t + 273.15)"
    by (rule Fin_op(1) [of _ _ 3]) (use assms in simp_all)
  have kpos: "273.15 \<le> t + 273.15" using assms by simp
  have q: "0 \<le> 2729.92 / (t + 273.15)" "2729.92 / (t + 273.15) \<le> 10"
  proof -
    show "0 \<le> 2729.92 / (t + 273.15)" using assms by simp
    have "2729.92 / (t + 273.15) \<le> 2729.92 / 273.15"
      using kpos by (intro divide_left_mono) simp_all
    also have "\<dots> \<le> (10::real)" by simp
    finally show "2729.92 / (t + 273.15) \<le> 10" .
  qed
  have d: "js_div (Fin 2729.92) (Fin (t + 273.15)) = Fin (2729.92 / (t + 273.15))"
    by (rule Fin_op(4) [of _ _ 1]) (use assms q in simp_all)
  have a: "js_add (Fin 0.09018) (Fin (2729.92 / (t + 273.15))) = Fin (pKa_real t)"
    unfolding pKa_real_def by (rule Fin_op(1) [of _ _ 2]) (use q in simp_all)
  show "js_add (Fin 0.09018) (js_div (Fin 2729.92) (js_add (Fin t) (Fin 273.15)))
      = Fin (pKa_real t)"
    unfolding k d a by (rule refl)
  show "0 \<le> pKa_real t" "pKa_real t \<le> 11" using q unfolding pKa_real_def by simp_all
qed

lemma nh3_fraction_saturated:
  assumes t: "0 \<le> t" "t \<le> 100" and p: "- 1000 \<le> p" "p \<le> - 309"
  shows "nh3_fraction (Fin t) (Fin p) = Fin 0"
proof -
  note K = pKa_exact [OF t]
  have s: "js_sub (Fin (pKa_real t)) (Fin p) = Fin (pKa_real t - p)"
    by (rule Fin_op(2) [of _ _ 4]) (use K(2,3) p in simp_all)
  have "(10::real) ^ 309 = 10 powr (of_nat 309)" by (rule powr_realpow [symmetric]) simp
  also have "\<dots> \<le> 10 powr (pKa_real t - p)" using K(2) p(2) by (intro powr_mono) simp_all
  finally have "ovf (10 powr (pKa_real t - p)) = PInf" by (rule ovf_PInf)
  then have w: "Math_pow10 (Fin (pKa_real t - p)) = PInf" by simp
  show ?thesis unfolding nh3_fraction_def Let_def K(1) s w by simp
qed

lemma emersonPhysics_at_zero:
  "emersonPhysics (Fin 0) (Fin 25) (Fin 7) = Fin 0"
  "emersonPhysics (Fin 0) (Fin 25) (Fin 8) = Fin 0"
proof -
  have "emersonPhysics (Fin 0) (Fin 25) (Fin 7) = Fin (0 * fraction_real 25 7)"
    by (rule emersonPhysics_exact) simp_all
  then show "emersonPhysics (Fin 0) (Fin 25) (Fin 7) = Fin 0" by simp
  have "emersonPhysics (Fin 0) (Fin 25) (Fin 8) = Fin (0 * fraction_real 25 8)"
    by (rule emersonPhysics_exact) simp_all
  then show "emersonPhysics (Fin 0) (Fin 25) (Fin 8) = Fin 0" by simp
qed

lemma emersonPhysics_negative:
  "js_lt (emersonPhysics (Fin (- 1)) (Fin 25) (Fin 8)) (emersonPhysics (Fin (- 1)) (Fin 25) (Fin 7))"
proof -
  have e7: "emersonPhysics (Fin (- 1)) (Fin 25) (Fin 7) = Fin (- 1 * fraction_real 25 7)"
    by (rule emersonPhysics_exact) simp_all
  have e8: "emersonPhysics (Fin (- 1)) (Fin 25) (Fin 8) = Fin (- 1 * fraction_real 25 8)"
    by (rule emersonPhysics_exact) simp_all
  have "fraction_real 25 7 < fraction_real 25 8" by (rule fraction_real_mono_pH) simp
  then show ?thesis unfolding e7 e8 by simp
qed

lemma emersonPhysics_saturated:
  "emersonPhysics (Fin 1) (Fin 25) (Fin (- 400)) = Fin 0"
  "emersonPhysics (Fin 1) (Fin 25) (Fin (- 350)) = Fin 0"
proof -
  have "nh3_fraction (Fin 25) (Fin (- 400)) = Fin 0" by (rule nh3_fraction_saturated) simp_all
  then show "emersonPhysics (Fin 1) (Fin 25) (Fin (- 400)) = Fin 0"
    unfolding emersonPhysics_nh3_fraction by simp
  have "nh3_fraction (Fin 25) (Fin (- 350)) = Fin 0" by (rule nh3_fraction_saturated) simp_all
  then show "emersonPhysics (Fin 1) (Fin 25) (Fin (- 350)) = Fin 0"
    unfolding emersonPhysics_nh3_fraction by simp
qed

text \<open>
  C5 as stated fails in three ways. At TAN = 0 the result is 0 at every pH. At a negative
  TAN, which the pipeline passes when the surrogate's output is below zero, the result
  decreases when pH increases. At a positive TAN the increase is not strict: where
  \<open>10^(pKa - pH)\<close> overflows the fraction is 0 and so is the result.
\<close>

theorem emerson_monotone_counterexample:
  "\<not> js_lt (emersonPhysics (Fin 0) (Fin 25) (Fin 7)) (emersonPhysics (Fin 0) (Fin 25) (Fin 8))
   \<and> js_lt (emersonPhysics (Fin (- 1)) (Fin 25) (Fin 8))
        (emersonPhysics (Fin (- 1)) (Fin 25) (Fin 7))
   \<and> \<not> js_lt (emersonPhysics (Fin 1) (Fin 25) (Fin (- 400)))
        (emersonPhysics (Fin 1) (Fin 25) (Fin (- 350)))"
  using emersonPhysics_negative unfolding emersonPhysics_at_zero emersonPhysics_saturated
  by simp

text \<open>
  C5 (amended). For a finite TAN that is not negative, \<open>emersonPhysics\<close> never decreases
  when pH increases at a fixed finite temperature, and never decreases when the temperature
  increases from -273.15 degrees Celsius upwards at a fixed finite pH. The unionized
  fraction that the function computes has the same two properties.
\<close>

theorem emerson_monotone:
  "(0 \<le> x \<and> p1 \<le> p2 \<longrightarrow>
      js_le (emersonPhysics (Fin x) (Fin t) (Fin p1)) (emersonPhysics (Fin x) (Fin t) (Fin p2)))
   \<and> (0 \<le> x \<and> - 273.15 \<le> t1 \<and> t1 \<le> t2 \<longrightarrow>
      js_le (emersonPhysics (Fin x) (Fin t1) (Fin p)) (emersonPhysics (Fin x) (Fin t2) (Fin p)))
   \<and> (p1 \<le> p2 \<longrightarrow> js_le (nh3_fraction (Fin t) (Fin p1)) (nh3_fraction (Fin t) (Fin p2)))
   \<and> (- 273.15 \<le> t1 \<and> t1 \<le> t2 \<longrightarrow>
      js_le (nh3_fraction (Fin t1) (Fin p)) (nh3_fraction (Fin t2) (Fin p)))"
  using emersonPhysics_mono nh3_fraction_mono_pH nh3_fraction_mono_temp by blast

theorem emerson_monotone_witness:
  "js_le (emersonPhysics (Fin 1) (Fin 25) (Fin 7)) (emersonPhysics (Fin 1) (Fin 25) (Fin 8))
   \<and> js_le (emersonPhysics (Fin 1) (Fin 20) (Fin 7)) (emersonPhysics (Fin 1) (Fin 25) (Fin 7))
   \<and> js_le (nh3_fraction (Fin 25) (Fin 7)) (nh3_fraction (Fin 25) (Fin 8))
   \<and> js_le (nh3_fraction (Fin 20) (Fin 7)) (nh3_fraction (Fin 25) (Fin 7))"
proof -
  have "(0::real) \<le> 1 \<and> (7::real) \<le> 8" and "(0::real) \<le> 1 \<and> - 273.15 \<le> (20::real) \<and> (20::real) \<le> 25"
    and "(7::real) \<le> 8" and "- 273.15 \<le> (20::real) \<and> (20::real) \<le> 25"
    by simp_all
  with emerson_monotone [of 1 7 8 25 20 25 7] show ?thesis by blast
qed


section \<open>Heatmap grid: shape and samples\<close>

lemma steps_limit: "steps \<le> 2 ^ 53 \<Longrightarrow> \<bar>real steps - 1\<bar> < dbl_limit"
proof -
  assume "steps \<le> 2 ^ 53"
  then have "real steps \<le> 2 ^ 53" by (metis of_nat_le_iff of_nat_numeral of_nat_power)
  moreover have "(2::real) ^ 53 \<le> 10 ^ 16" by simp
  ultimately have "\<bar>real steps - 1\<bar> \<le> 10 ^ 17" by simp
  then show ?thesis by (rule pow10_lt_limit [rotated]) simp
qed

lemma grid_cell:
  assumes "i < steps" and "j < steps"
  shows "generateHeatmapData tr pr ec steps ! i ! j =
     heatmap_cell tr pr ec
        (js_div (js_sub (js_index tr 1) (js_index tr 0)) (js_sub (Fin (real steps)) (Fin 1)))
        (js_div (js_sub (js_index pr 1) (js_index pr 0)) (js_sub (Fin (real steps)) (Fin 1)))
        i j"
  using assms by (simp add: generateHeatmapData_grid)

lemma grid_shape:
  "length (generateHeatmapData tr pr ec steps) = steps"
  "i < steps \<Longrightarrow> length (generateHeatmapData tr pr ec steps ! i) = steps"
  by (simp_all add: generateHeatmapData_grid)

lemma grid_sample:
  assumes "i < steps" and "j < steps"
  shows "generateHeatmapData [lo, hi] [plo, phi] ec steps ! i ! j =
     \<lparr> TAN = TAN (predictAmmoniaRisk (heatmap_sample lo hi steps i)
                  (heatmap_sample plo phi steps j) ec),
       toxicNH3 = toxicNH3 (predictAmmoniaRisk (heatmap_sample lo hi steps i)
                  (heatmap_sample plo phi steps j) ec),
       risk = risk (predictAmmoniaRisk (heatmap_sample lo hi steps i)
                  (heatmap_sample plo phi steps j) ec),
       temp = heatmap_sample lo hi steps i,
       pH = heatmap_sample plo phi steps j \<rparr>"
proof -
  have i: "js_index [lo, hi] 0 = lo" "js_index [lo, hi] 1 = hi"
    "js_index [plo, phi] 0 = plo" "js_index [plo, phi] 1 = phi"
    by (simp_all add: js_index_def)
  show ?thesis
    unfolding grid_cell [OF assms] heatmap_cell_def Let_def i heatmap_sample_def
    by (rule refl)
qed

lemma first_sample:
  assumes s: "2 \<le> steps" "steps \<le> 2 ^ 53"
    and a: "\<bar>a\<bar> < dbl_limit" and w: "\<bar>b - a\<bar> < dbl_limit"
  shows "heatmap_sample (Fin a) (Fin b) steps 0 = Fin a"
proof -
  have w1: "js_sub (Fin b) (Fin a) = Fin (b - a)"
    using w by (simp add: js_sub_def ovf_Fin)
  have n1: "js_sub (Fin (real steps)) (Fin 1) = Fin (real steps - 1)"
    using steps_limit [OF s(2)] by (simp add: js_sub_def ovf_Fin)
  have one: "1 \<le> real steps - 1" using s(1) by simp
  then have nz: "real steps - 1 \<noteq> 0" by simp
  have "\<bar>b - a\<bar> / (real steps - 1) \<le> \<bar>b - a\<bar> / 1"
    using one by (intro divide_left_mono) simp_all
  then have "\<bar>(b - a) / (real steps - 1)\<bar> < dbl_limit" using w one by simp
  then have d: "js_div (Fin (b - a)) (Fin (real steps - 1)) = Fin ((b - a) / (real steps - 1))"
    using nz by (simp add: ovf_Fin)
  have z: "js_mul (Fin (real 0)) (Fin ((b - a) / (real steps - 1))) = Fin 0" by simp
  have e: "js_add (Fin a) (Fin 0) = Fin a" using a by (simp add: ovf_Fin)
  show ?thesis unfolding heatmap_sample_def w1 n1 d z e by (rule refl)
qed

text \<open>
  C7 as stated, for every range, fails where the width of a range overflows: the
  step is an infinity, zero times it is NaN, and the first cell is not at the low end.
\<close>

theorem heatmap_grid_counterexample:
  "temp (generateHeatmapData [Fin (- (10 ^ 308)), Fin (10 ^ 308)] [Fin 5, Fin 10] (Fin 1200) 8
      ! 0 ! 0) = NaN"
proof -
  have "dbl_limit \<le> 10 ^ 308 + 10 ^ 308" by (simp add: dbl_limit_def)
  then have w: "js_sub (Fin (10 ^ 308)) (Fin (- (10 ^ 308))) = PInf"
    by (simp only: js_sub_def js_neg.simps js_add.simps ovf_def minus_minus if_True)
  have "\<bar>8 - 1 :: real\<bar> < dbl_limit" by (rule pow10_lt_limit [of 1]) simp_all
  then have n: "js_sub (Fin (real 8)) (Fin 1) = Fin 7"
    by (simp add: js_sub_def ovf_Fin)
  have i: "js_index [Fin (- (10 ^ 308)), Fin (10 ^ 308)] 0 = Fin (- (10 ^ 308))"
    "js_index [Fin (- (10 ^ 308)), Fin (10 ^ 308)] 1 = Fin (10 ^ 308)"
    by (simp_all only: js_index_def list.size nth_Cons_0 nth_Cons_Suc One_nat_def) simp_all
  have g: "generateHeatmapData [Fin (- (10 ^ 308)), Fin (10 ^ 308)] [Fin 5, Fin 10] (Fin 1200) 8
      ! 0 ! 0 =
    heatmap_cell [Fin (- (10 ^ 308)), Fin (10 ^ 308)] [Fin 5, Fin 10] (Fin 1200)
      (js_div (js_sub (js_index [Fin (- (10 ^ 308)), Fin (10 ^ 308)] 1)
         (js_index [Fin (- (10 ^ 308)), Fin (10 ^ 308)] 0)) (js_sub (Fin (real 8)) (Fin 1)))
      (js_div (js_sub (js_index [Fin 5, Fin 10] 1) (js_index [Fin 5, Fin 10] 0))
         (js_sub (Fin (real 8)) (Fin 1))) 0 0"
    by (rule grid_cell) simp_all
  show ?thesis unfolding g heatmap_cell_def Let_def i w n by simp
qed

text \<open>
  C7 (amended). For \<open>2 \<le> steps\<close> (a counter below \<open>2^53\<close>), finite ranges \<open>[a, b]\<close> and
  \<open>[c, d]\<close> whose widths do not overflow, and every conductivity, the grid has \<open>steps\<close> rows
  of \<open>steps\<close> cells; the cell of row \<open>i\<close> and column \<open>j\<close> is at the temperature
  \<open>a + i * ((b - a) / (steps - 1))\<close> and the pH \<open>c + j * ((d - c) / (steps - 1))\<close> as the
  engine's arithmetic computes them, and carries the prediction of the pipeline there; the
  first cell is at \<open>(a, c)\<close>. Nothing is said of how close the last sample is to \<open>b\<close>.
\<close>

theorem heatmap_grid:
  assumes "2 \<le> steps" and "steps \<le> 2 ^ 53"
    and "\<bar>a\<bar> < dbl_limit" and "\<bar>b - a\<bar> < dbl_limit"
    and "\<bar>c\<bar> < dbl_limit" and "\<bar>d - c\<bar> < dbl_limit"
  shows "length (generateHeatmapData [Fin a, Fin b] [Fin c, Fin d] ec steps) = steps
    \<and> (\<forall>i<steps. length (generateHeatmapData [Fin a, Fin b] [Fin c, Fin d] ec steps ! i) = steps)
    \<and> (\<forall>i<steps. \<forall>j<steps.
          generateHeatmapData [Fin a, Fin b] [Fin c, Fin d] ec steps ! i ! j =
          \<lparr> TAN = TAN (predictAmmoniaRisk (heatmap_sample (Fin a) (Fin b) steps i)
                  (heatmap_sample (Fin c) (Fin d) steps j) ec),
            toxicNH3 = toxicNH3 (predictAmmoniaRisk (heatmap_sample (Fin a) (Fin b) steps i)
                  (heatmap_sample (Fin c) (Fin d) steps j) ec),
            risk = risk (predictAmmoniaRisk (heatmap_sample (Fin a) (Fin b) steps i)
                  (heatmap_sample (Fin c) (Fin d) steps j) ec),
            temp = heatmap_sample (Fin a) (Fin b) steps i,
            pH = heatmap_sample (Fin c) (Fin d) steps j \<rparr>)
    \<and> temp (generateHeatmapData [Fin a, Fin b] [Fin c, Fin d] ec steps ! 0 ! 0) = Fin a
    \<and> pH (generateHeatmapData [Fin a, Fin b] [Fin c, Fin d] ec steps ! 0 ! 0) = Fin c"
proof -
  have z: "0 < steps" using assms(1) by simp
  note fa = first_sample [OF assms(1,2,3,4)] and fc = first_sample [OF assms(1,2,5,6)]
  have first: "temp (generateHeatmapData [Fin a, Fin b] [Fin c, Fin d] ec steps ! 0 ! 0) = Fin a"
    "pH (generateHeatmapData [Fin a, Fin b] [Fin c, Fin d] ec steps ! 0 ! 0) = Fin c"
    unfolding grid_sample [OF z z] fa fc by simp_all
  from grid_shape grid_sample first show ?thesis by (intro conjI allI impI)
qed

theorem heatmap_grid_witness:
  "length (generateHeatmapData [Fin 5, Fin 40] [Fin 5, Fin 10] (Fin 1200) 8) = 8
   \<and> length (generateHeatmapData [Fin 5, Fin 40] [Fin 5, Fin 10] (Fin 1200) 8 ! 7) = 8
   \<and> temp (generateHeatmapData [Fin 5, Fin 40] [Fin 5, Fin 10] (Fin 1200) 8 ! 7 ! 7)
       = heatmap_sample (Fin 5) (Fin 40) 8 7
   \<and> temp (generateHeatmapData [Fin 5, Fin 40] [Fin 5, Fin 10] (Fin 1200) 8 ! 0 ! 0) = Fin 5
   \<and> pH (generateHeatmapData [Fin 5, Fin 40] [Fin 5, Fin 10] (Fin 1200) 8 ! 0 ! 0) = Fin 5"
proof -
  have s: "(2::nat) \<le> 8" "(8::nat) \<le> 2 ^ 53" by simp_all
  have l: "\<bar>5::real\<bar> < dbl_limit" "\<bar>40 - 5::real\<bar> < dbl_limit" "\<bar>10 - 5::real\<bar> < dbl_limit"
    by (rule pow10_lt_limit [of 2], simp, simp)+
  note g = heatmap_grid [OF s l(1,2) l(1,3), of "Fin 1200"]
  have k: "(7::nat) < 8" by simp
  from g have len: "length (generateHeatmapData [Fin 5, Fin 40] [Fin 5, Fin 10] (Fin 1200) 8) = 8"
    by (rule conjunct1)
  from g k have row: "length (generateHeatmapData [Fin 5, Fin 40] [Fin 5, Fin 10] (Fin 1200) 8 ! 7) = 8"
    by blast
  from g k have "generateHeatmapData [Fin 5, Fin 40] [Fin 5, Fin 10] (Fin 1200) 8 ! 7 ! 7 =
      \<lparr> TAN = TAN (predictAmmoniaRisk (heatmap_sample (Fin 5) (Fin 40) 8 7)
                  (heatmap_sample (Fin 5) (Fin 10) 8 7) (Fin 1200)),
        toxicNH3 = toxicNH3 (predictAmmoniaRisk (heatmap_sample (Fin 5) (Fin 40) 8 7)
                  (heatmap_sample (Fin 5) (Fin 10) 8 7) (Fin 1200)),
        risk = risk (predictAmmoniaRisk (heatmap_sample (Fin 5) (Fin 40) 8 7)
                  (heatmap_sample (Fin 5) (Fin 10) 8 7) (Fin 1200)),
        temp = heatmap_sample (Fin 5) (Fin 40) 8 7,
        pH = heatmap_sample (Fin 5) (Fin 10) 8 7 \<rparr>"
    by blast
  then have last: "temp (generateHeatmapData [Fin 5, Fin 40] [Fin 5, Fin 10] (Fin 1200) 8 ! 7 ! 7)
       = heatmap_sample (Fin 5) (Fin 40) 8 7"
    by simp
  from g have first:
    "temp (generateHeatmapData [Fin 5, Fin 40] [Fin 5, Fin 10] (Fin 1200) 8 ! 0 ! 0) = Fin 5"
    "pH (generateHeatmapData [Fin 5, Fin 40] [Fin 5, Fin 10] (Fin 1200) 8 ! 0 ! 0) = Fin 5"
    by blast+
  from len row last first show ?thesis by (intro conjI)
qed

end
